(* ===== verification/MH_Prelude.thy ===== *)
theory MH_Prelude
  imports Complex_Main
begin

text \<open>
  Shared vocabulary of the development: how the JavaScript primitives that
  \<^verbatim>\<open>src/index.js\<close> relies on are read in HOL.
  \<^item> A JavaScript number that holds a colour value, a brightness or a channel
    is an integer (\<^typ>\<open>int\<close>); the intermediate quotients of the colour
    arithmetic are \<^typ>\<open>real\<close>, computed exactly.
  \<^item> \<^verbatim>\<open>Math.round(x)\<close> is \<open>\<lfloor>x + 1/2\<rfloor>\<close>, which is HOL's \<^const>\<open>round\<close>
    (ties go towards plus infinity in both).
  \<^item> \<^verbatim>\<open>String(n)\<close> of an integer-valued number is \<open>show_int n\<close>; parsing a
    run of decimal digits is \<open>read_nat\<close>.
  \<^item> \<^verbatim>\<open>config.x || d\<close> on a JSON configuration value is \<open>js_or_str\<close> and its kin.
  The collection \<open>js_num\<close> holds the rules that let \<open>simp\<close> evaluate
  \<^const>\<open>round\<close> on the literal quotients the model produces.
\<close>

named_theorems js_num "rules that evaluate JavaScript number operations on literals"

type_synonym channel = int

subsection \<open>Decimal digits and number rendering\<close>

definition digit_char :: "nat \<Rightarrow> char" where
  "digit_char d = ''0123456789'' ! d"

definition is_digit :: "char \<Rightarrow> bool" where
  "is_digit c \<longleftrightarrow> 48 \<le> (of_char c :: nat) \<and> (of_char c :: nat) \<le> 57"

definition digit_val :: "char \<Rightarrow> nat" where
  "digit_val c = of_char c - 48"

fun show_nat :: "nat \<Rightarrow> string" where
  "show_nat n = (if n < 10 then [digit_char n] else show_nat (n div 10) @ [digit_char (n mod 10)])"

definition show_int :: "int \<Rightarrow> string" where
  "show_int i = (if i < 0 then CHR ''-'' # show_nat (nat (- i)) else show_nat (nat i))"

fun read_digits :: "nat \<Rightarrow> string \<Rightarrow> nat option" where
  "read_digits acc [] = Some acc"
| "read_digits acc (c # cs) = (if is_digit c then read_digits (10 * acc + digit_val c) cs else None)"

definition read_nat :: "string \<Rightarrow> nat option" where
  "read_nat s = (if s = [] then None else read_digits 0 s)"

definition read_int :: "string \<Rightarrow> int option" where
  "read_int s = (case s of
      c # cs \<Rightarrow> if c = CHR ''-'' then map_option (\<lambda>n. - int n) (read_nat cs) else map_option int (read_nat s)
    | [] \<Rightarrow> None)"

text \<open>Comma-separated lists, as the source writes channel values.\<close>

fun join_commas :: "string list \<Rightarrow> string" where
  "join_commas [] = []"
| "join_commas [s] = s"
| "join_commas (s # ss) = s @ CHR '','' # join_commas ss"

fun split_commas :: "string \<Rightarrow> string list" where
  "split_commas [] = [[]]"
| "split_commas (c # cs) = (if c = CHR '','' then [] # split_commas cs
     else (case split_commas cs of w # ws \<Rightarrow> (c # w) # ws | [] \<Rightarrow> [[c]]))"

subsection \<open>JavaScript's \<^verbatim>\<open>||\<close> on configuration values\<close>

text \<open>
  \<^verbatim>\<open>config.k || d\<close> yields \<open>d\<close> when the key is absent (\<open>None\<close>) or holds a
  falsy value (the empty string, \<open>0\<close>, \<open>false\<close>).
\<close>

fun js_or_str :: "string option \<Rightarrow> string \<Rightarrow> string" where
  "js_or_str None d = d"
| "js_or_str (Some s) d = (if s = [] then d else s)"

fun js_or_nat :: "nat option \<Rightarrow> nat \<Rightarrow> nat" where
  "js_or_nat None d = d"
| "js_or_nat (Some n) d = (if n = 0 then d else n)"

fun js_or_bool :: "bool option \<Rightarrow> bool" where
  "js_or_bool None = False"
| "js_or_bool (Some b) = b"

text \<open>
  Concatenating an optional configuration string: an absent key is
  \<^verbatim>\<open>undefined\<close>, which \<^verbatim>\<open>+\<close> renders as the text \<open>undefined\<close>.
\<close>

fun js_str :: "string option \<Rightarrow> string" where
  "js_str None = ''undefined''"
| "js_str (Some s) = s"

subsection \<open>Rounding\<close>

lemma round_of_int_div: "0 < q \<Longrightarrow> round (of_int p / of_int q :: real) = (2 * p + q) div (2 * q)"
proof -
  assume q: "0 < q"
  have "of_int p / of_int q + 1/2 = (of_int (2 * p + q) / of_int (2 * q) :: real)"
    using q by (simp add: field_simps)
  then have "round (of_int p / of_int q :: real) = \<lfloor>of_int (2 * p + q) / of_int (2 * q) :: real\<rfloor>"
    by (simp only: round_def)
  then show ?thesis by (simp only: floor_divide_of_int_eq)
qed

lemma round_numeral_div [simp, js_num]:
  "round (numeral m / numeral n :: real) = (2 * numeral m + numeral n) div (2 * numeral n)"
  using round_of_int_div [of "numeral n" "numeral m"] by simp

lemma round_neg_numeral_div [simp, js_num]:
  "round (- (numeral m / numeral n) :: real) = (numeral n - 2 * numeral m) div (2 * numeral n)"
  using round_of_int_div [of "numeral n" "- numeral m"] by simp

lemma round_bounds [js_num]:
  assumes "0 \<le> x" and "x \<le> of_int n"
  shows "0 \<le> round (x :: real) \<and> round x \<le> n"
  using round_mono [OF assms(1)] round_mono [OF assms(2)] by simp

lemma digits_below_10: "(d::nat) < 10 \<longleftrightarrow> d \<in> {0, 1, 2, 3, 4, 5, 6, 7, 8, 9}"
  by auto

lemma digit_char_digit [simp]: "d < 10 \<Longrightarrow> is_digit (digit_char d)"
  unfolding digits_below_10 by (auto simp: digit_char_def is_digit_def)

lemma digit_val_char [simp]: "d < 10 \<Longrightarrow> digit_val (digit_char d) = d"
  unfolding digits_below_10 by (auto simp: digit_char_def digit_val_def)

lemma digit_char_not_comma [simp]: "d < 10 \<Longrightarrow> digit_char d \<noteq> CHR '',''"
proof
  assume "d < 10" "digit_char d = CHR '',''"
  then have "is_digit CHR '',''" using digit_char_digit by metis
  then show False by (simp add: is_digit_def)
qed

lemma digit_char_not_minus [simp]: "d < 10 \<Longrightarrow> digit_char d \<noteq> CHR ''-''"
proof
  assume "d < 10" "digit_char d = CHR ''-''"
  then have "is_digit CHR ''-''" using digit_char_digit by metis
  then show False by (simp add: is_digit_def)
qed

subsection \<open>Decimal rendering and reading\<close>

declare show_nat.simps [simp del]

lemma show_nat_nonempty [simp]: "show_nat n \<noteq> []"
  by (subst show_nat.simps) simp

lemma show_nat_digits: "c \<in> set (show_nat n) \<Longrightarrow> is_digit c"
proof (induction n rule: show_nat.induct)
  case (1 n)
  then show ?case
    by (cases "n < 10") (auto simp: show_nat.simps [of n])
qed

lemma read_digits_append:
  "read_digits acc (xs @ ys) = (case read_digits acc xs of None \<Rightarrow> None | Some a \<Rightarrow> read_digits a ys)"
  by (induction acc xs rule: read_digits.induct) auto

lemma read_digits_show_nat: "read_digits acc (show_nat n) = Some (acc * 10 ^ length (show_nat n) + n)"
proof (induction n arbitrary: acc rule: show_nat.induct)
  case (1 n)
  show ?case
  proof (cases "n < 10")
    case True
    then show ?thesis by (simp add: show_nat.simps [of n])
  next
    case False
    then have "show_nat n = show_nat (n div 10) @ [digit_char (n mod 10)]"
      by (simp add: show_nat.simps [of n])
    with False "1.IH" show ?thesis
      by (simp add: read_digits_append algebra_simps)
  qed
qed

theorem read_nat_show_nat [simp]: "read_nat (show_nat n) = Some n"
  by (simp add: read_nat_def read_digits_show_nat)

lemma not_digit_comma [simp]: "\<not> is_digit CHR '',''"
  by (simp add: is_digit_def)

lemma not_digit_minus [simp]: "\<not> is_digit CHR ''-''"
  by (simp add: is_digit_def)

lemma show_nat_hd: obtains c cs where "show_nat n = c # cs" and "c \<noteq> CHR ''-''"
proof -
  obtain c cs where eq: "show_nat n = c # cs"
    using show_nat_nonempty by (metis list.exhaust)
  then have "is_digit c" using show_nat_digits [of c n] by simp
  then have "c \<noteq> CHR ''-''" by auto
  with eq show ?thesis by (rule that)
qed

theorem read_int_show_int [simp]: "read_int (show_int i) = Some i"
proof (cases "i < 0")
  case True
  then show ?thesis by (simp add: show_int_def read_int_def)
next
  case False
  obtain c cs where eq: "show_nat (nat i) = c # cs" and c: "c \<noteq> CHR ''-''"
    by (rule show_nat_hd)
  have "read_int (show_nat (nat i)) = map_option int (read_nat (show_nat (nat i)))"
    using c by (simp only: eq read_int_def list.case if_False)
  with False show ?thesis by (simp add: show_int_def)
qed

lemma show_int_no_comma [simp]: "CHR '','' \<notin> set (show_int i)"
  using show_nat_digits [of "CHR '',''"] by (auto simp: show_int_def)

lemma split_commas_nonempty [simp]: "split_commas s \<noteq> []"
  by (induction s) (auto split: list.splits)

lemma split_commas_no_comma: "CHR '','' \<notin> set s \<Longrightarrow> split_commas (s @ CHR '','' # t) = s # split_commas t"
  by (induction s) auto

lemma split_commas_plain: "CHR '','' \<notin> set s \<Longrightarrow> split_commas s = [s]"
  by (induction s) auto

theorem split_join_commas:
  "ss \<noteq> [] \<Longrightarrow> \<forall>s \<in> set ss. CHR '','' \<notin> set s \<Longrightarrow> split_commas (join_commas ss) = ss"
  by (induction ss rule: join_commas.induct) (auto simp: split_commas_no_comma split_commas_plain)

end
