(* ===== verification/Accessory_State.thy ===== *)
theory Accessory_State
  imports MH_Prelude
begin

text \<open>
  The fields of a \<^verbatim>\<open>MagicHomeAccessory\<close> object and the configuration it is
  built from (\<^verbatim>\<open>src/index.js\<close>, lines 16 to 31). A configuration key may be
  absent (\<open>None\<close>); \<open>new_fields\<close> applies the constructor's
  \<^verbatim>\<open>config.k || default\<close> fallbacks. The colour object \<^verbatim>\<open>{H, S, L}\<close>
  is the record \<open>hsl\<close>. The constructor's last statement, the device query of
  \<^verbatim>\<open>getColorFromDevice\<close>, is an effect and belongs to theory \<open>Accessory\<close>.
  \<open>acc_wf\<close> is the range the HomeKit characteristics keep the colour and
  brightness in (hue from 0, saturation, lightness and brightness within 0..100).
\<close>

record hsl =
  H :: int
  S :: int
  L :: int

record mh_config =
  cfg_name :: "string option"
  cfg_setup :: "string option"
  cfg_port :: "nat option"
  cfg_ip :: "string option"
  cfg_purewhite :: "bool option"
  cfg_onlywhite :: "bool option"
  cfg_combinedwhite :: "bool option"

record accessory =
  name :: string
  acc_setup :: string
  port :: nat
  ip :: "string option"
  color :: hsl
  brightness :: int
  purewhite :: bool
  onlywhite :: bool
  combinedwhite :: bool

definition new_fields :: "mh_config \<Rightarrow> accessory" where
  "new_fields cfg =
     \<lparr>name = js_or_str (cfg_name cfg) ''LED Controller'',
      acc_setup = js_or_str (cfg_setup cfg) ''RGBW'',
      port = js_or_nat (cfg_port cfg) 5577,
      ip = cfg_ip cfg,
      color = \<lparr>H = 255, S = 100, L = 50\<rparr>,
      brightness = 100,
      purewhite = js_or_bool (cfg_purewhite cfg),
      onlywhite = js_or_bool (cfg_onlywhite cfg),
      combinedwhite = js_or_bool (cfg_combinedwhite cfg)\<rparr>"

definition hsl_wf :: "hsl \<Rightarrow> bool" where
  "hsl_wf c \<longleftrightarrow> 0 \<le> H c \<and> 0 \<le> S c \<and> S c \<le> 100 \<and> 0 \<le> L c \<and> L c \<le> 100"

definition acc_wf :: "accessory \<Rightarrow> bool" where
  "acc_wf a \<longleftrightarrow> hsl_wf (color a) \<and> 0 \<le> brightness a \<and> brightness a \<le> 100"

lemma new_fields_wf: "acc_wf (new_fields cfg)"
  by (simp add: new_fields_def acc_wf_def hsl_wf_def)

end
