(* ===== verification/Color_Convert.thy ===== *)
theory Color_Convert
  imports Accessory_State
begin

text \<open>
  The colour-space conversions \<^verbatim>\<open>src/index.js\<close> calls from the
  \<^verbatim>\<open>color-convert\<close> package: \<^verbatim>\<open>convert.hsl.rgb\<close> (lines 128 and 144)
  and \<^verbatim>\<open>convert.rgb.hsl\<close> (line 93). The package is a dependency, not part of
  \<^verbatim>\<open>src/\<close>; its two routines are modelled after the package's
  \<^verbatim>\<open>conversions.js\<close>, and the package's exported wrappers round every
  component with \<^verbatim>\<open>Math.round\<close> (\<open>hsl_rgb\<close>, \<open>rgb_hsl\<close>).
  The lemmas show that the rendered channels stay within 0..255 for every
  non-negative hue and in-range saturation and lightness, that the grey axis
  renders to equal channels and survives a round trip, that the reading of a
  byte triple stays within hue 0..360, saturation and lightness 0..100, and
  where the round trip the specification promises fails.
\<close>

subsection \<open>\<^verbatim>\<open>convert.hsl.rgb\<close>\<close>

text \<open>
  One iteration of the loop over \<open>i = 0, 1, 2\<close>: the hue offset \<open>t3\<close> is
  wrapped into range once in each direction and the piecewise-linear ramp
  between \<open>t1\<close> and \<open>t2\<close> is read off.
\<close>

definition hsl_channel :: "real \<Rightarrow> real \<Rightarrow> real \<Rightarrow> real" where
  "hsl_channel t1 t2 t3\<^sub>0 =
     (let t3' = (if t3\<^sub>0 < 0 then t3\<^sub>0 + 1 else t3\<^sub>0);
          t3 = (if t3' > 1 then t3' - 1 else t3');
          val = (if 6 * t3 < 1 then t1 + (t2 - t1) * 6 * t3
                 else if 2 * t3 < 1 then t2
                 else if 3 * t3 < 2 then t1 + (t2 - t1) * (2 / 3 - t3) * 6
                 else t1)
      in val * 255)"

definition hsl_rgb_raw :: "int \<Rightarrow> int \<Rightarrow> int \<Rightarrow> real \<times> real \<times> real" where
  "hsl_rgb_raw h\<^sub>0 s\<^sub>0 l\<^sub>0 =
     (let h = of_int h\<^sub>0 / 360; s = of_int s\<^sub>0 / 100; l = of_int l\<^sub>0 / 100 in
      if s = 0 then (l * 255, l * 255, l * 255)
      else
        let t2 = (if l < 0.5 then l * (1 + s) else l + s - l * s);
            t1 = 2 * l - t2
        in (hsl_channel t1 t2 (h + 1 / 3), hsl_channel t1 t2 h, hsl_channel t1 t2 (h - 1 / 3)))"

definition hsl_rgb :: "int \<Rightarrow> int \<Rightarrow> int \<Rightarrow> channel \<times> channel \<times> channel" where
  "hsl_rgb h s l = (case hsl_rgb_raw h s l of (r, g, b) \<Rightarrow> (round r, round g, round b))"

subsection \<open>\<^verbatim>\<open>convert.rgb.hsl\<close>\<close>

text \<open>
  The hue is read from whichever channel is largest; the package's last
  \<^verbatim>\<open>else if (b === max)\<close> always holds when it is reached, so it is the
  final \<open>else\<close> here.
\<close>

definition rgb_hsl_raw :: "int \<Rightarrow> int \<Rightarrow> int \<Rightarrow> real \<times> real \<times> real" where
  "rgb_hsl_raw r\<^sub>0 g\<^sub>0 b\<^sub>0 =
     (let r = of_int r\<^sub>0 / 255; g = of_int g\<^sub>0 / 255; b = of_int b\<^sub>0 / 255;
          mn = min r (min g b); mx = max r (max g b); delta = mx - mn;
          h\<^sub>0 = (if mx = mn then 0
                else if r = mx then (g - b) / delta
                else if g = mx then 2 + (b - r) / delta
                else 4 + (r - g) / delta);
          h\<^sub>1 = min (h\<^sub>0 * 60) 360;
          h = (if h\<^sub>1 < 0 then h\<^sub>1 + 360 else h\<^sub>1);
          l = (mn + mx) / 2;
          s = (if mx = mn then 0
               else if l \<le> 0.5 then delta / (mx + mn)
               else delta / (2 - mx - mn))
      in (h, s * 100, l * 100))"

definition rgb_hsl :: "int \<Rightarrow> int \<Rightarrow> int \<Rightarrow> int \<times> int \<times> int" where
  "rgb_hsl r g b = (case rgb_hsl_raw r g b of (h, s, l) \<Rightarrow> (round h, round s, round l))"

subsection \<open>The call sites in \<^verbatim>\<open>src/index.js\<close>\<close>

text \<open>
  \<^verbatim>\<open>convert.hsl.rgb([color.H, color.S, color.L])\<close> renders the accessory's
  colour object (lines 128 and 144); \<^verbatim>\<open>getState\<close> turns the converted
  triple of a device reply into a colour object (lines 93 to 98).
\<close>

definition render_rgb :: "hsl \<Rightarrow> channel \<times> channel \<times> channel" where
  "render_rgb c = hsl_rgb (H c) (S c) (L c)"

definition device_color :: "int \<Rightarrow> int \<Rightarrow> int \<Rightarrow> hsl" where
  "device_color r g b = (case rgb_hsl r g b of (h, s, l) \<Rightarrow> \<lparr>H = h, S = s, L = l\<rparr>)"

lemmas color_convert_defs = render_rgb_def device_color_def hsl_rgb_def hsl_rgb_raw_def hsl_channel_def rgb_hsl_def rgb_hsl_raw_def

subsection \<open>Ramps and ratios\<close>

lemma ramp_between:
  fixes t1 d x :: real
  assumes "0 \<le> d" "0 \<le> x" "x \<le> 1"
  shows "t1 \<le> t1 + d * x \<and> t1 + d * x \<le> t1 + d"
  using assms by (simp add: mult_left_le)

lemma hsl_channel_bounds:
  assumes t: "0 \<le> t1" "t1 \<le> t2" "t2 \<le> 1" and h: "-1 \<le> t3"
  shows "0 \<le> hsl_channel t1 t2 t3 \<and> hsl_channel t1 t2 t3 \<le> 255"
proof -
  define t3' where "t3' = (if t3 < 0 then t3 + 1 else t3)"
  define u where "u = (if t3' > 1 then t3' - 1 else t3')"
  have u0: "0 \<le> u" using h by (simp add: u_def t3'_def)
  define v where "v = (if 6 * u < 1 then t1 + (t2 - t1) * 6 * u
                 else if 2 * u < 1 then t2
                 else if 3 * u < 2 then t1 + (t2 - t1) * (2 / 3 - u) * 6
                 else t1)"
  have "t1 \<le> v \<and> v \<le> t2"
  proof (cases "6 * u < 1")
    case True
    then have "t1 \<le> t1 + (t2 - t1) * (6 * u) \<and> t1 + (t2 - t1) * (6 * u) \<le> t1 + (t2 - t1)"
      using u0 t by (intro ramp_between) auto
    moreover have "v = t1 + (t2 - t1) * (6 * u)" using True by (simp add: v_def)
    ultimately show ?thesis by linarith
  next
    case c1: False
    show ?thesis
    proof (cases "2 * u < 1")
      case True
      with c1 t show ?thesis by (simp add: v_def)
    next
      case c2: False
      show ?thesis
      proof (cases "3 * u < 2")
        case True
        then have "t1 \<le> t1 + (t2 - t1) * ((2 / 3 - u) * 6) \<and> t1 + (t2 - t1) * ((2 / 3 - u) * 6) \<le> t1 + (t2 - t1)"
          using c2 t by (intro ramp_between) auto
        moreover have "v = t1 + (t2 - t1) * ((2 / 3 - u) * 6)" using c1 c2 True by (simp add: v_def)
        ultimately show ?thesis by linarith
      next
        case False
        with c1 c2 t show ?thesis by (simp add: v_def)
      qed
    qed
  qed
  moreover have "hsl_channel t1 t2 t3 = v * 255"
    by (simp add: hsl_channel_def v_def u_def t3'_def Let_def)
  ultimately show ?thesis using t by auto
qed

lemma hsl_ramp_ends:
  fixes s l :: real
  assumes "0 < s" "s \<le> 1" "0 \<le> l" "l \<le> 1"
  defines "t2 \<equiv> (if l < 0.5 then l * (1 + s) else l + s - l * s)"
  shows "0 \<le> 2 * l - t2 \<and> 2 * l - t2 \<le> t2 \<and> t2 \<le> 1"
proof (cases "l < 0.5")
  case True
  have "l * s \<le> l" using assms by (simp add: mult_left_le)
  moreover have "0 \<le> l * s" using assms by simp
  ultimately show ?thesis using True by (simp add: t2_def algebra_simps)
next
  case False
  have "s * (1 - l) \<le> 1 - l" using assms by (simp add: mult_left_le_one_le)
  moreover have "0 \<le> s * (1 - l)" using assms by simp
  ultimately show ?thesis using False by (simp add: t2_def algebra_simps)
qed

lemma ratio_unit:
  fixes x d :: real
  assumes "0 < d" "- d \<le> x" "x \<le> d"
  shows "-1 \<le> x / d \<and> x / d \<le> 1"
  using assms by (simp add: field_simps)

lemma ratio_frac:
  fixes x d :: real
  assumes "0 < d" "0 \<le> x" "x \<le> d"
  shows "0 \<le> x / d \<and> x / d \<le> 1"
  using assms by (simp add: field_simps)

lemma rgb_hsl_raw_bounds:
  assumes "0 \<le> r" "r \<le> 255" "0 \<le> g" "g \<le> 255" "0 \<le> b" "b \<le> 255"
  shows "case rgb_hsl_raw r g b of (h, s, l) \<Rightarrow>
           0 \<le> h \<and> h < 360 \<and> 0 \<le> s \<and> s \<le> 100 \<and> 0 \<le> l \<and> l \<le> 100"
proof -
  define rr where "rr = (of_int r / 255 :: real)"
  define gr where "gr = (of_int g / 255 :: real)"
  define br where "br = (of_int b / 255 :: real)"
  define mn where "mn = min rr (min gr br)"
  define mx where "mx = max rr (max gr br)"
  define h0 where "h0 = (if mx = mn then 0
                else if rr = mx then (gr - br) / (mx - mn)
                else if gr = mx then 2 + (br - rr) / (mx - mn)
                else 4 + (rr - gr) / (mx - mn))"
  define h1 where "h1 = min (h0 * 60) 360"
  define l where "l = (mn + mx) / 2"
  define s where "s = (if mx = mn then 0
               else if l \<le> 0.5 then (mx - mn) / (mx + mn)
               else (mx - mn) / (2 - mx - mn))"
  have unit: "0 \<le> rr" "rr \<le> 1" "0 \<le> gr" "gr \<le> 1" "0 \<le> br" "br \<le> 1"
    using assms by (simp_all add: rr_def gr_def br_def)
  then have mm: "0 \<le> mn" "mn \<le> mx" "mx \<le> 1"
    by (auto simp: mn_def mx_def)
  have between: "mn \<le> rr" "rr \<le> mx" "mn \<le> gr" "gr \<le> mx" "mn \<le> br" "br \<le> mx"
    by (simp_all add: mn_def mx_def)
  have h0: "-1 \<le> h0 \<and> h0 \<le> 5"
  proof (cases "mx = mn")
    case False
    then have d: "0 < mx - mn" using mm by simp
    have A: "-1 \<le> (gr - br) / (mx - mn) \<and> (gr - br) / (mx - mn) \<le> 1"
      by (rule ratio_unit [OF d]) (use between in linarith)+
    have B: "-1 \<le> (br - rr) / (mx - mn) \<and> (br - rr) / (mx - mn) \<le> 1"
      by (rule ratio_unit [OF d]) (use between in linarith)+
    have C: "-1 \<le> (rr - gr) / (mx - mn) \<and> (rr - gr) / (mx - mn) \<le> 1"
      by (rule ratio_unit [OF d]) (use between in linarith)+
    have "h0 = (gr - br) / (mx - mn) \<or> h0 = 2 + (br - rr) / (mx - mn) \<or> h0 = 4 + (rr - gr) / (mx - mn)"
      using False by (simp add: h0_def)
    with A B C show ?thesis by (elim disjE) linarith+
  qed (simp add: h0_def)
  then have hue: "0 \<le> (if h1 < 0 then h1 + 360 else h1) \<and> (if h1 < 0 then h1 + 360 else h1) < 360"
    by (auto simp: h1_def)
  have sat: "0 \<le> s \<and> s \<le> 1"
  proof (cases "mx = mn")
    case False
    then have d: "0 < mx - mn" using mm by simp
    show ?thesis
    proof (cases "l \<le> 0.5")
      case True
      have "0 \<le> (mx - mn) / (mx + mn) \<and> (mx - mn) / (mx + mn) \<le> 1"
        using d mm by (intro ratio_frac) auto
      with True False show ?thesis by (simp add: s_def)
    next
      case c: False
      have "0 \<le> (mx - mn) / (2 - mx - mn) \<and> (mx - mn) / (2 - mx - mn) \<le> 1"
        using d mm by (intro ratio_frac) auto
      with c False show ?thesis by (simp add: s_def)
    qed
  qed (simp add: s_def)
  have light: "0 \<le> l \<and> l \<le> 1" using mm by (simp add: l_def)
  have "rgb_hsl_raw r g b = ((if h1 < 0 then h1 + 360 else h1), s * 100, l * 100)"
    by (simp only: rgb_hsl_raw_def Let_def rr_def gr_def br_def mn_def mx_def h0_def h1_def l_def s_def)
  with hue sat light show ?thesis by simp
qed

subsection \<open>Range of the conversions\<close>

lemma hsl_rgb_in_range:
  assumes "0 \<le> h" "0 \<le> s" "s \<le> 100" "0 \<le> l" "l \<le> 100"
  shows "case hsl_rgb h s l of (r, g, b) \<Rightarrow>
           0 \<le> r \<and> r \<le> 255 \<and> 0 \<le> g \<and> g \<le> 255 \<and> 0 \<le> b \<and> b \<le> 255"
proof (cases "s = 0")
  case True
  have "0 \<le> (of_int l :: real) / 100 * 255 \<and> (of_int l :: real) / 100 * 255 \<le> of_int 255"
    using assms by simp
  then have "0 \<le> round ((of_int l :: real) / 100 * 255) \<and> round ((of_int l :: real) / 100 * 255) \<le> 255"
    using round_bounds by blast
  with True show ?thesis by (simp add: hsl_rgb_def hsl_rgb_raw_def Let_def)
next
  case False
  define sr where "sr = (of_int s / 100 :: real)"
  define lr where "lr = (of_int l / 100 :: real)"
  define hr where "hr = (of_int h / 360 :: real)"
  define t2 where "t2 = (if lr < 0.5 then lr * (1 + sr) else lr + sr - lr * sr)"
  have ends: "0 \<le> 2 * lr - t2 \<and> 2 * lr - t2 \<le> t2 \<and> t2 \<le> 1"
    unfolding t2_def using False assms by (intro hsl_ramp_ends) (auto simp: sr_def lr_def)
  have hr: "0 \<le> hr" using assms by (simp add: hr_def)
  have ch: "0 \<le> round (hsl_channel (2 * lr - t2) t2 x) \<and> round (hsl_channel (2 * lr - t2) t2 x) \<le> 255"
    if "-1 \<le> x" for x
    using hsl_channel_bounds [of "2 * lr - t2" t2 x] ends that
    by (intro round_bounds) auto
  have raw: "hsl_rgb_raw h s l = (hsl_channel (2 * lr - t2) t2 (hr + 1 / 3),
      hsl_channel (2 * lr - t2) t2 hr, hsl_channel (2 * lr - t2) t2 (hr - 1 / 3))"
    using False by (simp add: hsl_rgb_raw_def Let_def sr_def lr_def hr_def t2_def)
  show ?thesis
    using ch [of "hr + 1/3"] ch [of hr] ch [of "hr - 1/3"] hr by (simp add: hsl_rgb_def raw)
qed
lemma rgb_hsl_in_range:
  assumes "0 \<le> r" "r \<le> 255" "0 \<le> g" "g \<le> 255" "0 \<le> b" "b \<le> 255"
  shows "case rgb_hsl r g b of (h, s, l) \<Rightarrow>
           0 \<le> h \<and> h \<le> 360 \<and> 0 \<le> s \<and> s \<le> 100 \<and> 0 \<le> l \<and> l \<le> 100"
proof -
  obtain h s l where raw: "rgb_hsl_raw r g b = (h, s, l)" by (metis prod_cases3)
  with rgb_hsl_raw_bounds [OF assms] have b: "0 \<le> h" "h \<le> of_int 360" "0 \<le> s" "s \<le> of_int 100" "0 \<le> l" "l \<le> of_int 100"
    by simp_all
  have "0 \<le> round h \<and> round h \<le> 360" by (rule round_bounds [OF b(1,2)])
  moreover have "0 \<le> round s \<and> round s \<le> 100" by (rule round_bounds [OF b(3,4)])
  moreover have "0 \<le> round l \<and> round l \<le> 100" by (rule round_bounds [OF b(5,6)])
  ultimately show ?thesis by (simp add: rgb_hsl_def raw)
qed

lemma hsl_rgb_range:
  assumes "0 \<le> h" "0 \<le> s" "s \<le> 100" "0 \<le> l" "l \<le> 100" and "hsl_rgb h s l = (r, g, b)"
  shows "0 \<le> r \<and> r \<le> 255 \<and> 0 \<le> g \<and> g \<le> 255 \<and> 0 \<le> b \<and> b \<le> 255"
  using hsl_rgb_in_range [OF assms(1-5)] assms(6) by simp

lemma rgb_hsl_range:
  assumes "0 \<le> r" "r \<le> 255" "0 \<le> g" "g \<le> 255" "0 \<le> b" "b \<le> 255" and "rgb_hsl r g b = (h, s, l)"
  shows "0 \<le> h \<and> h \<le> 360 \<and> 0 \<le> s \<and> s \<le> 100 \<and> 0 \<le> l \<and> l \<le> 100"
  using rgb_hsl_in_range [OF assms(1-6)] assms(7) by simp

text \<open>
  C10. For every colour with a non-negative hue and a saturation and
  lightness in 0..100, \<^verbatim>\<open>convert.hsl.rgb([color.H, color.S, color.L])\<close>
  renders three channels within 0..255: the
  ramp ends \<open>t1 \<le> t2\<close> lie in [0, 1] and every channel is read off between
  them. No upper bound on the hue is needed: a hue beyond 360 wraps only once
  and then falls into the last branch, which yields \<open>t1\<close>.
\<close>

theorem render_rgb_bounds:
  assumes "hsl_wf c"
  shows "case render_rgb c of (r, g, b) \<Rightarrow>
           0 \<le> r \<and> r \<le> 255 \<and> 0 \<le> g \<and> g \<le> 255 \<and> 0 \<le> b \<and> b \<le> 255"
proof -
  obtain r g b where rgb: "render_rgb c = (r, g, b)" by (metis prod_cases3)
  have "0 \<le> r \<and> r \<le> 255 \<and> 0 \<le> g \<and> g \<le> 255 \<and> 0 \<le> b \<and> b \<le> 255"
    using assms by (intro hsl_rgb_range [where h = "H c" and s = "S c" and l = "L c"])
      (simp_all add: hsl_wf_def rgb [unfolded render_rgb_def])
  then show ?thesis by (simp add: rgb)
qed

theorem render_rgb_bounds_witness:
  "hsl_wf \<lparr>H = 30, S = 100, L = 40\<rparr>
   \<and> (case render_rgb \<lparr>H = 30, S = 100, L = 40\<rparr> of (r, g, b) \<Rightarrow>
         0 \<le> r \<and> r \<le> 255 \<and> 0 \<le> g \<and> g \<le> 255 \<and> 0 \<le> b \<and> b \<le> 255)"
  using render_rgb_bounds [of "\<lparr>H = 30, S = 100, L = 40\<rparr>"] by (simp add: hsl_wf_def)

text \<open>
  C11. For every byte triple, the colour \<^verbatim>\<open>getState\<close> builds from
  \<^verbatim>\<open>convert.rgb.hsl\<close> has a hue within 0..360 and a saturation and
  lightness within 0..100: a device reply keeps the accessory's colour in the
  range the rest of the code expects. The hue bound is 360,
  not 359: see the example \<open>device_color_hue_360\<close> below.
\<close>

theorem device_color_wf:
  assumes "0 \<le> r" "r \<le> 255" "0 \<le> g" "g \<le> 255" "0 \<le> b" "b \<le> 255"
  shows "hsl_wf (device_color r g b) \<and> H (device_color r g b) \<le> 360"
proof -
  obtain h s l where hsl: "rgb_hsl r g b = (h, s, l)" by (metis prod_cases3)
  have "0 \<le> h \<and> h \<le> 360 \<and> 0 \<le> s \<and> s \<le> 100 \<and> 0 \<le> l \<and> l \<le> 100"
    using assms hsl by (rule rgb_hsl_range)
  then show ?thesis by (simp add: device_color_def hsl_wf_def hsl)
qed

theorem device_color_wf_witness:
  "0 \<le> (255::int) \<and> (255::int) \<le> 255 \<and> 0 \<le> (0::int) \<and> (0::int) \<le> 255 \<and> 0 \<le> (1::int) \<and> (1::int) \<le> 255
   \<and> hsl_wf (device_color 255 0 1) \<and> H (device_color 255 0 1) \<le> 360"
  using device_color_wf [of 255 0 1] by simp

subsection \<open>Round trips\<close>

lemma hsl_rgb_grey: "hsl_rgb h 0 l = (round (of_int l / 100 * 255 :: real), round (of_int l / 100 * 255 :: real), round (of_int l / 100 * 255 :: real))"
  by (simp add: hsl_rgb_def hsl_rgb_raw_def)

lemma rgb_hsl_grey: "rgb_hsl v v v = (0, 0, round (of_int v / 255 * 100 :: real))"
  by (simp add: rgb_hsl_def rgb_hsl_raw_def Let_def)

lemma round_lightness_back: "round (of_int (round (of_int l / 100 * 255 :: real)) / 255 * 100 :: real) = l"
proof (rule round_unique')
  define x where "x = (of_int l / 100 * 255 :: real)"
  have "x - 1/2 \<le> of_int (round x)" "of_int (round x) \<le> x + 1/2"
    using of_int_round_ge [of x] of_int_round_le [of x] by simp_all
  then have err: "\<bar>of_int (round x) - x\<bar> \<le> 1/2" unfolding abs_le_iff by arith
  have eq: "of_int (round x) / 255 * 100 - of_int l = (of_int (round x) - x) * (20 / 51)"
    by (simp add: x_def field_simps)
  have "\<bar>of_int (round x) / 255 * 100 - of_int l\<bar> = \<bar>(of_int (round x) - x) * (20 / 51)\<bar>"
    by (simp only: eq)
  also have "\<dots> = \<bar>of_int (round x) - x\<bar> * (20 / 51)"
    by (simp only: abs_mult)
  finally have "\<bar>of_int (round x) / 255 * 100 - of_int l\<bar> = \<bar>of_int (round x) - x\<bar> * (20 / 51)" .
  moreover have "\<bar>of_int (round x) - x\<bar> * (20 / 51) \<le> 1/2 * (20 / 51)"
    using err by (rule mult_right_mono) simp
  ultimately show "\<bar>of_int (round x) / 255 * 100 - of_int l\<bar> < (1/2 :: real)"
    by simp
qed

text \<open>
  C12. On the grey axis (saturation 0) rendering to RGB and reading back
  recovers the lightness exactly, for every integer lightness, and resets the
  hue to 0: the hue of a grey is not kept.
\<close>

lemma hsl_rgb_grey_roundtrip: "(case hsl_rgb h 0 l of (r, g, b) \<Rightarrow> rgb_hsl r g b) = (0, 0, l)"
  using round_lightness_back [of l] by (simp add: hsl_rgb_grey rgb_hsl_grey)

theorem render_grey_roundtrip:
  "S c = 0 \<Longrightarrow> (case render_rgb c of (r, g, b) \<Rightarrow> device_color r g b) = \<lparr>H = 0, S = 0, L = L c\<rparr>"
  using hsl_rgb_grey_roundtrip [of "H c" "L c"]
  by (simp add: render_rgb_def device_color_def split: prod.split_asm)

theorem render_grey_roundtrip_witness:
  "S \<lparr>H = 120, S = 0, L = 37\<rparr> = 0
   \<and> (case render_rgb \<lparr>H = 120, S = 0, L = 37\<rparr> of (r, g, b) \<Rightarrow> device_color r g b) = \<lparr>H = 0, S = 0, L = 37\<rparr>"
  using render_grey_roundtrip [of "\<lparr>H = 120, S = 0, L = 37\<rparr>"] by simp

subsection \<open>Examples behind the findings\<close>

text \<open>
  The round trip of the specification (section 8: \<open>rgb_to_hsl\<close> of
  \<open>hsl_to_rgb c\<close> within one unit of \<open>c\<close>) does not hold for dark colours:
  hue 30 at full saturation and lightness 1 renders to (5, 3, 0), which reads
  back as hue 36.
\<close>

lemma render_roundtrip_drift:
  "render_rgb \<lparr>H = 30, S = 100, L = 1\<rparr> = (5, 3, 0) \<and> device_color 5 3 0 = \<lparr>H = 36, S = 100, L = 1\<rparr>"
  by (simp add: color_convert_defs Let_def)

text \<open>
  \<^verbatim>\<open>convert.rgb.hsl\<close> can report the hue 360, outside the 0..359 of the
  specification's data model: a red with a trace of blue has a raw hue just
  below 360, which \<^verbatim>\<open>Math.round\<close> lifts to 360.
\<close>

lemma device_color_hue_360: "device_color 255 0 1 = \<lparr>H = 360, S = 100, L = 50\<rparr>"
  by (simp add: color_convert_defs Let_def)

end
