(* ===== verification/Device_State.thy ===== *)
theory Device_State
  imports Color_Convert
begin

text \<open>
  The device query of \<^verbatim>\<open>getState\<close> (\<^verbatim>\<open>src/index.js\<close>, lines 81 to 104):
  \<^verbatim>\<open>flux_led.py -i\<close> prints the controller's status, and the reply handler
  reads it with three global regular expressions. All three are fixed-length
  sequences of literal characters and \<^verbatim>\<open>\d\<close>, so a pattern is a list of
  \<open>pat_item\<close>s, matching at a position is \<open>pat_prefix\<close>, and
  \<^verbatim>\<open>String.prototype.match\<close> with the \<^verbatim>\<open>g\<close> flag is \<open>match_all\<close>: it scans
  left to right, records a match and resumes after it (one position further
  for an empty match), and returns \<^verbatim>\<open>null\<close> (\<open>None\<close>) when nothing
  matched. The handler's \<^verbatim>\<open>settings\<close> object is the record \<open>settings\<close>.
  \<^verbatim>\<open>convert.rgb.hsl\<close> receives the array of matched strings; the division
  \<^verbatim>\<open>"255" / 255\<close> converts each to a number (\<open>js_number\<close>).
  The lemmas show where the reading is right (C14, C17) and where it is not:
  digits outside the tuple (C15), channels printed without zero padding (C16),
  values above 255 (C18); a failed query is silently the default settings.
  The scan itself is equivalent to a reference reading by maximal digit runs
  (C28).
\<close>

subsection \<open>Global regular-expression matching\<close>

datatype pat_item = PLit char | PDigit

fun pat_prefix :: "pat_item list \<Rightarrow> string \<Rightarrow> bool" where
  "pat_prefix [] s = True"
| "pat_prefix (PLit c # p) (x # s) = (x = c \<and> pat_prefix p s)"
| "pat_prefix (PDigit # p) (x # s) = (is_digit x \<and> pat_prefix p s)"
| "pat_prefix (_ # _) [] = False"

function match_all :: "pat_item list \<Rightarrow> string \<Rightarrow> string list" where
  "match_all p s =
     (if pat_prefix p s
      then take (length p) s # (if s = [] then [] else match_all p (drop (max 1 (length p)) s))
      else (case s of [] \<Rightarrow> [] | _ # cs \<Rightarrow> match_all p cs))"
  by pat_completeness auto
termination by (relation "measure (\<lambda>(p, s). length s)") auto

text \<open>\<^verbatim>\<open>s.match(re)\<close> for a global \<^verbatim>\<open>re\<close>: the array of all matches, or \<^verbatim>\<open>null\<close>.\<close>

definition js_match_g :: "pat_item list \<Rightarrow> string \<Rightarrow> string list option" where
  "js_match_g p s = (case match_all p s of [] \<Rightarrow> None | ms \<Rightarrow> Some ms)"

text \<open>The test \<^verbatim>\<open>m && m.length > 0\<close> of lines 91 and 92.\<close>

fun js_found :: "string list option \<Rightarrow> bool" where
  "js_found None = False"
| "js_found (Some ms) = (0 < length ms)"

text \<open>The three patterns of lines 88, 89 and 93.\<close>

definition digits3 :: "pat_item list" where
  "digits3 = [PDigit, PDigit, PDigit]"

definition tuple_pat :: "pat_item list" where
  "tuple_pat = PLit CHR ''('' # digits3 @ [PLit CHR '','', PLit CHR '' ''] @ digits3
                 @ [PLit CHR '','', PLit CHR '' ''] @ digits3 @ [PLit CHR '')'']"

definition on_pat :: "pat_item list" where
  "on_pat = map PLit ''] ON ''"

subsection \<open>The reply handler of \<^verbatim>\<open>getState\<close>\<close>

text \<open>
  JavaScript's conversion of a string of decimal digits to a number, as the
  division in \<^verbatim>\<open>convert.rgb.hsl\<close> applies it to the matched strings.
\<close>

fun digits_value :: "nat \<Rightarrow> string \<Rightarrow> nat" where
  "digits_value acc [] = acc"
| "digits_value acc (c # cs) = digits_value (10 * acc + digit_val c) cs"

definition js_number :: "string \<Rightarrow> int" where
  "js_number s = int (digits_value 0 s)"

text \<open>
  \<^verbatim>\<open>convert.rgb.hsl(stdout.match(/\d{3}/g))\<close> reads the first three entries
  of the array. The source would read \<^verbatim>\<open>undefined\<close> from a shorter array (or
  fail on \<^verbatim>\<open>null\<close>); C17 shows that the guard of line 92 excludes both, so
  that branch is left \<^const>\<open>undefined\<close>.
\<close>

definition runs_hsl :: "string list option \<Rightarrow> hsl" where
  "runs_hsl m = (case m of Some (r # g # b # _) \<Rightarrow> device_color (js_number r) (js_number g) (js_number b)
                         | _ \<Rightarrow> undefined)"

record settings =
  st_on :: bool
  st_color :: hsl

text \<open>The callback of \<^verbatim>\<open>sendCommand('-i', ...)\<close>, lines 82 to 101, up to the call of \<^verbatim>\<open>callback\<close>.\<close>

definition get_state_reply :: "string \<Rightarrow> settings" where
  "get_state_reply stdout =
     (let settings = \<lparr>st_on = False, st_color = \<lparr>H = 255, S = 100, L = 50\<rparr>\<rparr>;
          colors = js_match_g tuple_pat stdout;
          isOn = js_match_g on_pat stdout;
          settings = (if js_found isOn then settings\<lparr>st_on := True\<rparr> else settings)
      in if js_found colors then settings\<lparr>st_color := runs_hsl (js_match_g digits3 stdout)\<rparr> else settings)"

declare match_all.simps [simp del]

subsection \<open>Replies as the controller prints them\<close>

text \<open>
  The status tuple \<open>(r, g, b)\<close> with the channels written as given, the
  property that a string consists of decimal digits, and the condition that
  the three channels the handler reads are bytes.
\<close>

definition status_tuple :: "string \<Rightarrow> string \<Rightarrow> string \<Rightarrow> string" where
  "status_tuple a b c = CHR ''('' # a @ '', '' @ b @ '', '' @ c @ '')''"

definition digit_str :: "string \<Rightarrow> bool" where
  "digit_str a \<longleftrightarrow> (\<forall>c \<in> set a. is_digit c)"

definition reply_bytes :: "string \<Rightarrow> bool" where
  "reply_bytes s = (case match_all digits3 s of
      r # g # b # _ \<Rightarrow> js_number r \<le> 255 \<and> js_number g \<le> 255 \<and> js_number b \<le> 255
    | _ \<Rightarrow> True)"

text \<open>
  A reference reading of the three-digit scan: cut the output into its
  maximal runs of digits and each run into consecutive three-digit chunks,
  dropping a shorter remainder.
\<close>

function digit_runs :: "string \<Rightarrow> string list" where
  "digit_runs s =
     (let d = takeWhile is_digit s; r = dropWhile is_digit s
      in (if d = [] then [] else [d]) @ (case r of [] \<Rightarrow> [] | _ # r' \<Rightarrow> digit_runs r'))"
  by pat_completeness auto
termination
proof (relation "measure length")
  fix s d r x r'
  assume "d = takeWhile is_digit s" "r = dropWhile is_digit s" "r = x # r'"
  then have "dropWhile is_digit s = x # r'" by simp
  then have "length r' < length (dropWhile is_digit s)" by simp
  also have "\<dots> \<le> length s" by (simp add: length_dropWhile_le)
  finally show "(r', s) \<in> measure length" by simp
qed simp

function chunks3 :: "string \<Rightarrow> string list" where
  "chunks3 s = (if length s < 3 then [] else take 3 s # chunks3 (drop 3 s))"
  by pat_completeness auto
termination by (relation "measure length") auto

declare digit_runs.simps [simp del] chunks3.simps [simp del]

subsection \<open>Scanning lemmas\<close>

lemma pat_prefix_Nil_str [simp]: "pat_prefix p [] \<longleftrightarrow> p = []"
  by (cases p) auto

lemma pat_prefix_append_pat:
  "pat_prefix (p @ q) s \<longleftrightarrow> pat_prefix p s \<and> pat_prefix q (drop (length p) s)"
  by (induction p s rule: pat_prefix.induct) auto

lemma pat_prefix_append_str: "pat_prefix p u \<Longrightarrow> pat_prefix p (u @ v)"
  by (induction p u rule: pat_prefix.induct) auto

lemma pat_prefix_length: "pat_prefix p u \<Longrightarrow> length p \<le> length u"
  by (induction p u rule: pat_prefix.induct) auto

lemma pat_prefix_digits_stop:
  "set p \<subseteq> {PDigit} \<Longrightarrow> \<not> is_digit x \<Longrightarrow> pat_prefix p (u @ x # w) \<Longrightarrow> pat_prefix p u"
proof (induction p arbitrary: u)
  case (Cons i p)
  then show ?case by (cases u) auto
qed simp

lemma match_all_Nil: "match_all p [] = (if p = [] then [[]] else [])"
  by (subst match_all.simps) simp

lemma match_all_Cons:
  "match_all p (c # cs) =
     (if pat_prefix p (c # cs) then take (length p) (c # cs) # match_all p (drop (max 1 (length p)) (c # cs))
      else match_all p cs)"
  by (subst match_all.simps) simp

lemma match_all_skip_lit: "c \<notin> set u \<Longrightarrow> match_all (PLit c # p) (u @ w) = match_all (PLit c # p) w"
  by (induction u) (auto simp: match_all_Cons)

lemma match_all_Nil_no_prefix: "match_all p s = [] \<Longrightarrow> \<not> pat_prefix p (drop k s)"
proof (induction s arbitrary: k)
  case Nil
  then show ?case by (simp add: match_all_Nil split: if_splits)
next
  case (Cons c cs)
  then show ?case by (cases k) (auto simp: match_all_Cons split: if_splits)
qed

lemma match_all_found: "pat_prefix p (drop k s) \<Longrightarrow> match_all p s \<noteq> []"
  using match_all_Nil_no_prefix by blast

lemma match_all_digits3_nondigit [simp]: "\<not> is_digit x \<Longrightarrow> match_all digits3 (x # w) = match_all digits3 w"
  by (simp add: match_all_Cons digits3_def)

lemma match_all_digits3_append:
  "\<not> is_digit x \<Longrightarrow> match_all digits3 (u @ x # w) = match_all digits3 u @ match_all digits3 (x # w)"
proof (induction u rule: length_induct)
  case (1 u)
  show ?case
  proof (cases u)
    case Nil
    then show ?thesis by (simp add: match_all_Nil digits3_def)
  next
    case (Cons c cs)
    show ?thesis
    proof (cases "pat_prefix digits3 u")
      case True
      then have len: "3 \<le> length u" using pat_prefix_length [of digits3 u] by (simp add: digits3_def)
      have l3: "length digits3 = 3" by (simp add: digits3_def)
      have m1: "match_all digits3 (u @ x # w) = take 3 u # match_all digits3 (drop 3 u @ x # w)"
        using pat_prefix_append_str [OF True] len Cons l3 by (simp add: match_all_Cons [of digits3 c])
      have m2: "match_all digits3 u = take 3 u # match_all digits3 (drop 3 u)"
        using True len Cons l3 by (simp add: match_all_Cons [of digits3 c])
      have "match_all digits3 (drop 3 u @ x # w) = match_all digits3 (drop 3 u) @ match_all digits3 (x # w)"
        using "1.IH" "1.prems" len Cons by simp
      then show ?thesis by (simp add: m1 m2)
    next
      case False
      then have "\<not> pat_prefix digits3 (u @ x # w)"
        using pat_prefix_digits_stop [of digits3 x u w] "1.prems" by (auto simp: digits3_def)
      then show ?thesis
        using False "1.IH" "1.prems" Cons by (simp add: match_all_Cons)
    qed
  qed
qed

lemma match_all_digits3_word:
  "digit_str a \<Longrightarrow> length a = 3 \<Longrightarrow> match_all digits3 a = [a]"
proof -
  assume d: "digit_str a" and l: "length a = 3"
  obtain a1 a2 a3 where a: "a = [a1, a2, a3]"
    using l by (auto simp: numeral_eq_Suc length_Suc_conv)
  show ?thesis
    using d by (simp add: a match_all_Cons match_all_Nil digits3_def digit_str_def)
qed

lemma match_all_digits3_run:
  "digit_str a \<Longrightarrow> length a = 3 \<Longrightarrow> \<not> is_digit x \<Longrightarrow> match_all digits3 (a @ x # w) = a # match_all digits3 w"
  by (simp add: match_all_digits3_append match_all_digits3_word)

lemma pat_prefix_digits3_field:
  assumes d: "digit_str a" and x: "\<not> is_digit x"
  shows "pat_prefix (digits3 @ PLit x # p) (a @ x # w) \<longleftrightarrow> length a = 3 \<and> pat_prefix p w"
proof
  assume m: "pat_prefix (digits3 @ PLit x # p) (a @ x # w)"
  then have "pat_prefix digits3 (a @ x # w)" by (simp add: pat_prefix_append_pat)
  then have "pat_prefix digits3 a" using pat_prefix_digits_stop [of digits3 x a w] x by (simp add: digits3_def)
  then have ge: "3 \<le> length a" using pat_prefix_length [of digits3 a] by (simp add: digits3_def)
  have l3: "length digits3 = 3" by (simp add: digits3_def)
  have rest: "pat_prefix (PLit x # p) (drop 3 a @ x # w)"
    using m ge by (simp add: pat_prefix_append_pat l3)
  show "length a = 3 \<and> pat_prefix p w"
  proof (cases "drop 3 a")
    case Nil
    then show ?thesis using rest ge by simp
  next
    case (Cons y ys)
    then have "y \<in> set a" by (metis in_set_dropD list.set_intros(1))
    then have "is_digit y" using d by (simp add: digit_str_def)
    then show ?thesis using rest x Cons by auto
  qed
next
  assume "length a = 3 \<and> pat_prefix p w"
  then obtain a1 a2 a3 where a: "a = [a1, a2, a3]" and p: "pat_prefix p w"
    by (auto simp: numeral_eq_Suc length_Suc_conv)
  then show "pat_prefix (digits3 @ PLit x # p) (a @ x # w)"
    using d by (simp add: digits3_def digit_str_def)
qed

lemma len15:
  assumes "length (t::string) = 15"
  obtains x1 x2 x3 x4 x5 x6 x7 x8 x9 x10 x11 x12 x13 x14 x15
  where "t = [x1, x2, x3, x4, x5, x6, x7, x8, x9, x10, x11, x12, x13, x14, x15]"
  using assms by (auto simp: numeral_eq_Suc length_Suc_conv)

lemma not_digit_paren_open [simp]: "\<not> is_digit CHR ''(''"
  by (simp add: is_digit_def)

lemma not_digit_paren_close [simp]: "\<not> is_digit CHR '')''"
  by (simp add: is_digit_def)

lemma not_digit_space [simp]: "\<not> is_digit CHR '' ''"
  by (simp add: is_digit_def)

lemma match_all_some_prefix: "match_all p s \<noteq> [] \<Longrightarrow> \<exists>k. pat_prefix p (drop k s)"
proof (induction s)
  case Nil
  then show ?case by (simp add: match_all_Nil split: if_splits)
next
  case (Cons c cs)
  then show ?case by (cases "pat_prefix p (c # cs)") (auto simp: match_all_Cons intro: exI [of _ 0] exI [of _ "Suc k" for k])
qed

lemma js_found_match: "js_found (js_match_g p s) \<longleftrightarrow> match_all p s \<noteq> []"
  by (simp add: js_match_g_def split: list.split)

lemma js_match_g_found: "match_all p s \<noteq> [] \<Longrightarrow> js_match_g p s = Some (match_all p s)"
  by (simp add: js_match_g_def split: list.split)

lemma pat_prefix_tuple_iff:
  "digit_str a \<Longrightarrow> digit_str b \<Longrightarrow> digit_str c \<Longrightarrow>
   pat_prefix tuple_pat (status_tuple a b c @ v) \<longleftrightarrow> length a = 3 \<and> length b = 3 \<and> length c = 3"
  by (simp add: tuple_pat_def status_tuple_def pat_prefix_digits3_field)

lemma pat_prefix_tuple_split:
  assumes "pat_prefix tuple_pat t"
  obtains a b c v where "t = status_tuple a b c @ v" "digit_str a" "digit_str b" "digit_str c"
    "length a = 3" "length b = 3" "length c = 3"
proof -
  have "15 \<le> length t" using pat_prefix_length [OF assms] by (simp add: tuple_pat_def digits3_def)
  then have "length (take 15 t) = 15" by simp
  then obtain x1 x2 x3 x4 x5 x6 x7 x8 x9 x10 x11 x12 x13 x14 x15 where
    tk: "take 15 t = [x1, x2, x3, x4, x5, x6, x7, x8, x9, x10, x11, x12, x13, x14, x15]"
    by (rule len15)
  have t: "t = [x1, x2, x3, x4, x5, x6, x7, x8, x9, x10, x11, x12, x13, x14, x15] @ drop 15 t"
    by (simp only: tk [symmetric] append_take_drop_id)
  have "pat_prefix tuple_pat ([x1, x2, x3, x4, x5, x6, x7, x8, x9, x10, x11, x12, x13, x14, x15] @ drop 15 t)"
    using assms t by simp
  then have "x1 = CHR ''('' \<and> x5 = CHR '','' \<and> x6 = CHR '' '' \<and> x10 = CHR '','' \<and> x11 = CHR '' ''
      \<and> x15 = CHR '')'' \<and> digit_str [x2, x3, x4] \<and> digit_str [x7, x8, x9] \<and> digit_str [x12, x13, x14]"
    by (simp add: tuple_pat_def digits3_def digit_str_def)
  then show ?thesis
    using t by (intro that [of "[x2, x3, x4]" "[x7, x8, x9]" "[x12, x13, x14]" "drop 15 t"]) (simp_all add: status_tuple_def)
qed

lemma match_all_digits3_tuple:
  assumes "digit_str a" "digit_str b" "digit_str c" "length a = 3" "length b = 3" "length c = 3"
  shows "match_all digits3 (u @ status_tuple a b c @ v) = match_all digits3 u @ [a, b, c] @ match_all digits3 v"
proof -
  have "u @ status_tuple a b c @ v = u @ CHR ''('' # (a @ CHR '','' # CHR '' '' # b @ CHR '','' # CHR '' '' # c @ CHR '')'' # v)"
    by (simp add: status_tuple_def)
  then show ?thesis
    using assms by (simp add: match_all_digits3_append match_all_digits3_word)
qed

lemma get_state_reply_tuple:
  assumes "digit_str a" "digit_str b" "digit_str c" "length a = 3" "length b = 3" "length c = 3"
  shows "st_color (get_state_reply (u @ status_tuple a b c @ v)) =
           runs_hsl (Some (match_all digits3 u @ [a, b, c] @ match_all digits3 v))"
proof -
  have "pat_prefix tuple_pat (drop (length u) (u @ status_tuple a b c @ v))"
    using assms by (simp add: pat_prefix_tuple_iff)
  then have "match_all tuple_pat (u @ status_tuple a b c @ v) \<noteq> []" by (rule match_all_found)
  then show ?thesis
    using assms by (simp add: get_state_reply_def Let_def js_found_match js_match_g_found match_all_digits3_tuple)
qed

lemma get_state_reply_no_tuple: "match_all tuple_pat s = [] \<Longrightarrow> st_color (get_state_reply s) = \<lparr>H = 255, S = 100, L = 50\<rparr>"
  by (simp add: get_state_reply_def Let_def js_found_match)

lemma match_all_tuple_three_runs:
  assumes "match_all tuple_pat s \<noteq> []"
  obtains r g b rest where "match_all digits3 s = r # g # b # rest"
proof -
  obtain k where "pat_prefix tuple_pat (drop k s)" using match_all_some_prefix [OF assms] by blast
  then obtain a b c v where t: "drop k s = status_tuple a b c @ v" and abc: "digit_str a" "digit_str b" "digit_str c"
      "length a = 3" "length b = 3" "length c = 3"
    by (rule pat_prefix_tuple_split)
  have "s = take k s @ status_tuple a b c @ v" using t by (metis append_take_drop_id)
  then have "match_all digits3 s = match_all digits3 (take k s) @ [a, b, c] @ match_all digits3 v"
    using abc match_all_digits3_tuple by metis
  then have "3 \<le> length (match_all digits3 s)" by simp
  then show ?thesis by (auto simp: numeral_eq_Suc Suc_le_length_iff intro: that)
qed

lemma digit_str_show_nat [simp]: "digit_str (show_nat n)"
  using show_nat_digits by (auto simp: digit_str_def)

lemma paren_not_in_show_nat [simp]: "CHR ''('' \<notin> set (show_nat n)"
  using show_nat_digits by force

lemma show_nat_short:
  assumes "n < 100" shows "length (show_nat n) < 3"
proof -
  have "n div 10 < 10" using assms by (simp add: div_less_iff_less_mult)
  then show ?thesis by (simp add: show_nat.simps [of n] show_nat.simps [of "n div 10"])
qed

lemma digits_value_read: "digit_str s \<Longrightarrow> read_digits acc s = Some (digits_value acc s)"
  by (induction acc s rule: digits_value.induct) (auto simp: digit_str_def)

lemma js_number_show_nat [simp]: "js_number (show_nat n) = int n"
  using read_digits_show_nat [of 0 n] digits_value_read [of "show_nat n" 0] by (simp add: js_number_def)

lemma match_all_tuple_no_paren: "CHR ''('' \<notin> set s \<Longrightarrow> match_all tuple_pat s = []"
  using match_all_skip_lit [of "CHR ''(''" s "tl tuple_pat" "[]"] by (simp add: tuple_pat_def match_all_Nil)

lemma match_all_tuple_skip: "CHR ''('' \<notin> set u \<Longrightarrow> match_all tuple_pat (u @ w) = match_all tuple_pat w"
  using match_all_skip_lit [of "CHR ''(''" u "tl tuple_pat" w] by (simp add: tuple_pat_def)


lemma match_all_digits3_digits: "digit_str d \<Longrightarrow> match_all digits3 d = chunks3 d"
proof (induction d rule: chunks3.induct)
  case (1 d)
  show ?case
  proof (cases "length d < 3")
    case True
    have "\<not> pat_prefix digits3 (drop k d)" for k
      using True pat_prefix_length [of digits3 "drop k d"] by (auto simp: digits3_def)
    then have "match_all digits3 d = []"
      using match_all_some_prefix by blast
    then show ?thesis using True by (simp add: chunks3.simps [of d])
  next
    case False
    then have "3 \<le> length d" by simp
    then obtain a1 a2 a3 r where d: "d = a1 # a2 # a3 # r"
      by (auto simp: numeral_eq_Suc Suc_le_length_iff)
    have ds: "digit_str (drop 3 d)" using "1.prems" by (auto simp: digit_str_def dest: in_set_dropD)
    have "match_all digits3 d = take 3 d # match_all digits3 (drop 3 d)"
      using "1.prems" by (simp add: d match_all_Cons digits3_def digit_str_def)
    then show ?thesis using "1.IH" [OF False ds] False by (simp add: chunks3.simps [of d])
  qed
qed

lemma chunks3_Nil [simp]: "chunks3 [] = []"
  by (simp add: chunks3.simps)

lemma digit_runs_split:
  "digit_runs s = (let d = takeWhile is_digit s; r = dropWhile is_digit s
      in (if d = [] then [] else [d]) @ (case r of [] \<Rightarrow> [] | _ # r' \<Rightarrow> digit_runs r'))"
  by (rule digit_runs.simps)

subsection \<open>What the handler reads\<close>

lemma get_state_reply_found:
  "match_all tuple_pat s \<noteq> [] \<Longrightarrow> match_all digits3 s = r # g # b # rest \<Longrightarrow>
   st_color (get_state_reply s) = device_color (js_number r) (js_number g) (js_number b)"
  by (simp add: get_state_reply_def Let_def js_found_match js_match_g_found runs_hsl_def)

lemma get_state_reply_wf: "reply_bytes s \<Longrightarrow> hsl_wf (st_color (get_state_reply s))"
proof (cases "match_all tuple_pat s = []")
  case True
  then show ?thesis by (simp add: get_state_reply_no_tuple hsl_wf_def)
next
  case False
  assume ok: "reply_bytes s"
  obtain r g b rest where runs: "match_all digits3 s = r # g # b # rest"
    using False by (rule match_all_tuple_three_runs)
  obtain h sa l where hsl: "rgb_hsl (js_number r) (js_number g) (js_number b) = (h, sa, l)"
    by (metis prod_cases3)
  have "0 \<le> h \<and> h \<le> 360 \<and> 0 \<le> sa \<and> sa \<le> 100 \<and> 0 \<le> l \<and> l \<le> 100"
    using ok runs by (intro rgb_hsl_range [OF _ _ _ _ _ _ hsl]) (simp_all add: reply_bytes_def js_number_def)
  then show ?thesis
    using get_state_reply_found [OF False runs] by (simp add: device_color_def hsl hsl_wf_def)
qed

text \<open>
  C14. A reply that carries the status tuple with three-digit channels, and no
  three-digit run before it, sets the colour to \<^verbatim>\<open>convert.rgb.hsl\<close> of the
  tuple's channels, whatever follows.
\<close>

theorem get_state_reply_reads_tuple:
  assumes "digit_str a" "digit_str b" "digit_str c" "length a = 3" "length b = 3" "length c = 3"
    and "match_all digits3 u = []"
  shows "st_color (get_state_reply (u @ status_tuple a b c @ v)) =
           device_color (js_number a) (js_number b) (js_number c)"
  using assms by (simp add: get_state_reply_tuple runs_hsl_def)

theorem get_state_reply_reads_tuple_witness:
  "digit_str ''255'' \<and> digit_str ''000'' \<and> digit_str ''012'' \<and> length ''255'' = 3 \<and> length ''000'' = 3
   \<and> length ''012'' = 3 \<and> match_all digits3 ''[ON]  Color: '' = []
   \<and> st_color (get_state_reply (''[ON]  Color: '' @ status_tuple ''255'' ''000'' ''012'' @ '' Brightness''))
       = device_color 255 0 12"
  using get_state_reply_reads_tuple [of "''255''" "''000''" "''012''" "''[ON]  Color: ''" "'' Brightness''"]
  by (simp add: digit_str_def is_digit_def match_all_Cons match_all_Nil digits3_def js_number_def digit_val_def)

text \<open>
  C15. The three channels are not taken from the tuple but from the first
  three-digit runs anywhere in the output (\<^verbatim>\<open>stdout.match(/\d{3}/g)\<close>, line
  93): a single earlier run, such as a three-digit number in a device name or
  address, shifts the channels, so the reply's red becomes green, its green
  blue, and that number red.
\<close>

theorem get_state_reply_earlier_digits:
  assumes "digit_str a" "digit_str b" "digit_str c" "length a = 3" "length b = 3" "length c = 3"
    and "match_all digits3 u = [d]"
  shows "st_color (get_state_reply (u @ status_tuple a b c @ v)) =
           device_color (js_number d) (js_number a) (js_number b)"
  using assms by (simp add: get_state_reply_tuple runs_hsl_def)

theorem get_state_reply_earlier_digits_witness:
  "digit_str ''255'' \<and> digit_str ''000'' \<and> length ''255'' = 3 \<and> length ''000'' = 3
   \<and> match_all digits3 ''ID 123 '' = [''123'']
   \<and> st_color (get_state_reply (''ID 123 '' @ status_tuple ''255'' ''000'' ''000'' @ []))
       = device_color 123 255 0"
  using get_state_reply_earlier_digits [of "''255''" "''000''" "''000''" "''ID 123 ''" "''123''" "[]"]
  by (simp add: digit_str_def is_digit_def match_all_Cons match_all_Nil digits3_def js_number_def digit_val_def)

text \<open>
  C16. The tuple pattern \<^verbatim>\<open>\(\d{3}\, \d{3}, \d{3}\)\<close> requires exactly three
  digits per channel. A tuple printed in plain decimal with any channel below
  100, such as \<open>(255, 0, 0)\<close>, is not recognised; when the output has no
  other opening parenthesis the colour stays the constructor's default
  {H: 255, S: 100, L: 50}.
\<close>

theorem get_state_reply_unpadded:
  assumes "r < 100 \<or> g < 100 \<or> b < 100"
    and "CHR ''('' \<notin> set u" and "CHR ''('' \<notin> set v"
  shows "st_color (get_state_reply (u @ status_tuple (show_nat r) (show_nat g) (show_nat b) @ v)) =
           \<lparr>H = 255, S = 100, L = 50\<rparr>"
proof -
  let ?t = "status_tuple (show_nat r) (show_nat g) (show_nat b)"
  let ?w = "show_nat r @ '', '' @ show_nat g @ '', '' @ show_nat b @ '')'' @ v"
  have t: "?t @ v = CHR ''('' # ?w" by (simp add: status_tuple_def)
  have np: "\<not> pat_prefix tuple_pat (?t @ v)"
    using assms(1) show_nat_short [of r] show_nat_short [of g] show_nat_short [of b]
    by (auto simp: pat_prefix_tuple_iff)
  have "match_all tuple_pat (u @ ?t @ v) = match_all tuple_pat (?t @ v)"
    using assms(2) by (rule match_all_tuple_skip)
  also have "\<dots> = match_all tuple_pat ?w"
    using np by (simp only: t match_all_Cons if_False)
  also have "\<dots> = []"
    using assms(3) by (intro match_all_tuple_no_paren) simp
  finally show ?thesis by (rule get_state_reply_no_tuple)
qed

theorem get_state_reply_unpadded_witness:
  "((255::nat) < 100 \<or> (0::nat) < 100 \<or> (0::nat) < 100) \<and> CHR ''('' \<notin> set ''Color: '' \<and> CHR ''('' \<notin> set ''''
   \<and> st_color (get_state_reply (''Color: '' @ status_tuple (show_nat 255) (show_nat 0) (show_nat 0) @ ''''))
       = \<lparr>H = 255, S = 100, L = 50\<rparr>"
  using get_state_reply_unpadded [of 255 0 0 "''Color: ''" "''''"] by simp

text \<open>
  C17. Whenever the tuple pattern matches, the global three-digit scan finds
  at least three runs, so \<^verbatim>\<open>convert.rgb.hsl\<close> receives three numbers (never
  \<^verbatim>\<open>undefined\<close>) and the colour is its result on the first three of them.
\<close>

theorem get_state_reply_first_three_runs:
  assumes "js_found (js_match_g tuple_pat stdout)"
  shows "\<exists>r g b rest. match_all digits3 stdout = r # g # b # rest
           \<and> st_color (get_state_reply stdout) = device_color (js_number r) (js_number g) (js_number b)"
proof -
  have m: "match_all tuple_pat stdout \<noteq> []" using assms by (simp add: js_found_match)
  obtain r g b rest where runs: "match_all digits3 stdout = r # g # b # rest"
    using m by (rule match_all_tuple_three_runs)
  show ?thesis using get_state_reply_found [OF m runs] runs by blast
qed

theorem get_state_reply_first_three_runs_witness:
  "js_found (js_match_g tuple_pat ''(010, 020, 030)'')
   \<and> (\<exists>r g b rest. match_all digits3 ''(010, 020, 030)'' = r # g # b # rest
        \<and> st_color (get_state_reply ''(010, 020, 030)'') = device_color (js_number r) (js_number g) (js_number b))"
proof -
  have f: "js_found (js_match_g tuple_pat ''(010, 020, 030)'')"
    by (simp add: js_match_g_def match_all_Cons match_all_Nil tuple_pat_def digits3_def is_digit_def)
  show ?thesis using f get_state_reply_first_three_runs [OF f] by blast
qed

text \<open>
  C18. The scan accepts any three digits, not only bytes: whenever the tuple
  pattern matches and the first three three-digit runs of the output are one
  and the same number of 257 or more, the colour read back is a grey whose
  lightness exceeds 100, a value the HomeKit characteristics cannot hold.
\<close>

theorem get_state_reply_out_of_range:
  assumes "js_found (js_match_g tuple_pat stdout)"
    and "match_all digits3 stdout = d # d # d # rest" and "257 \<le> js_number d"
  shows "100 < L (st_color (get_state_reply stdout)) \<and> \<not> hsl_wf (st_color (get_state_reply stdout))"
proof -
  have m: "match_all tuple_pat stdout \<noteq> []" using assms(1) by (simp add: js_found_match)
  define v where "v = js_number d"
  have "L (st_color (get_state_reply stdout)) = round (of_int v / 255 * 100 :: real)"
    using get_state_reply_found [OF m assms(2)] by (simp add: v_def device_color_def rgb_hsl_grey)
  also have "(of_int v / 255 * 100 :: real) = of_int (100 * v) / of_int 255" by simp
  also have "round (of_int (100 * v) / of_int 255 :: real) = (2 * (100 * v) + 255) div (2 * 255)"
    by (rule round_of_int_div) simp
  finally have l: "L (st_color (get_state_reply stdout)) = (200 * v + 255) div 510" by simp
  have "(51510::int) div 510 \<le> (200 * v + 255) div 510"
    using assms(3) by (intro zdiv_mono1) (simp_all add: v_def)
  then have "100 < L (st_color (get_state_reply stdout))" by (simp add: l)
  then show ?thesis by (simp add: hsl_wf_def)
qed

theorem get_state_reply_out_of_range_witness:
  "js_found (js_match_g tuple_pat ''(999, 999, 999)'')
   \<and> match_all digits3 ''(999, 999, 999)'' = ''999'' # ''999'' # ''999'' # []
   \<and> 257 \<le> js_number ''999''
   \<and> 100 < L (st_color (get_state_reply ''(999, 999, 999)''))
   \<and> \<not> hsl_wf (st_color (get_state_reply ''(999, 999, 999)''))"
proof -
  have f: "js_found (js_match_g tuple_pat ''(999, 999, 999)'')"
    by (simp add: js_match_g_def match_all_Cons match_all_Nil tuple_pat_def digits3_def is_digit_def)
  have r: "match_all digits3 ''(999, 999, 999)'' = ''999'' # ''999'' # ''999'' # []"
    by (simp add: match_all_Cons match_all_Nil digits3_def is_digit_def)
  have n: "257 \<le> js_number ''999''" by (simp add: js_number_def digit_val_def)
  show ?thesis using f r n get_state_reply_out_of_range [OF f r n] by blast
qed

text \<open>
  C28. The global scan \<^verbatim>\<open>stdout.match(/\d{3}/g)\<close> is equivalent to the
  reference reading: the three-digit chunks of the maximal digit runs, in
  order. So a run of four digits yields its first three, and a run of one or
  two digits yields nothing.
\<close>

theorem match_all_digits3_chunks: "match_all digits3 s = concat (map chunks3 (digit_runs s))"
proof (induction s rule: digit_runs.induct)
  case (1 s)
  define d where "d = takeWhile is_digit s"
  define r where "r = dropWhile is_digit s"
  have s: "match_all digits3 s = match_all digits3 (d @ r)" by (simp add: d_def r_def)
  have dd: "digit_str d" by (auto simp: d_def digit_str_def dest: set_takeWhileD)
  have dr: "digit_runs s = (if d = [] then [] else [d]) @ (case r of [] \<Rightarrow> [] | _ # r' \<Rightarrow> digit_runs r')"
    by (simp only: digit_runs_split [of s] Let_def d_def [symmetric] r_def [symmetric])
  have cd: "concat (map chunks3 (if d = [] then [] else [d])) = chunks3 d" by simp
  show ?case
  proof (cases r)
    case Nil
    then show ?thesis using dd by (simp add: s dr cd match_all_digits3_digits)
  next
    case (Cons x r')
    have x: "\<not> is_digit x" using Cons r_def by (metis hd_dropWhile list.distinct(1) list.sel(1))
    have "match_all digits3 s = chunks3 d @ match_all digits3 r'"
      using x dd by (simp add: s Cons match_all_digits3_append match_all_digits3_digits)
    then show ?thesis
      using "1.IH" [OF d_def r_def Cons] by (simp add: dr Cons cd)
  qed
qed

end
