(* ===== verification/Flux_Command.thy ===== *)
theory Flux_Command
  imports MH_Prelude
begin

text \<open>
  The commands the accessory hands to the \<^verbatim>\<open>flux_led.py\<close> helper. The source
  builds each as a string at the point of use; here the kinds of command are a
  datatype and \<open>command_arg\<close> renders each exactly as the source's string
  concatenations do:
  \<^item> \<^verbatim>\<open>'-x ' + setup + ' -V' + values\<close>, all channels including the white
    ones (lines 119, 125, 141, 149, 152);
  \<^item> \<^verbatim>\<open>'-x ' + setup + ' -c' + r,g,b\<close>, the colour channels only
    (lines 154 and 155);
  \<^item> \<^verbatim>\<open>'-w ' + brightness\<close> (line 164), \<^verbatim>\<open>--on\<close> and \<^verbatim>\<open>--off\<close>
    (line 176), \<^verbatim>\<open>-i\<close>, the state query (line 82).
  \<open>send_command\<close> is the shell line of \<^verbatim>\<open>sendCommand\<close> (lines 74 to 79).
  The parser \<open>parse_command_arg\<close> is the reading of that argument string the
  helper needs; the round-trip lemma shows that the rendering is unambiguous
  for every command the accessory can build.
\<close>

datatype flux_cmd =
    CmdAll string "channel list"
  | CmdRgb string "channel list"
  | CmdWarm int
  | CmdOn
  | CmdOff
  | CmdInfo

fun command_arg :: "flux_cmd \<Rightarrow> string" where
  "command_arg (CmdAll setup vs) = ''-x '' @ setup @ '' -V'' @ join_commas (map show_int vs)"
| "command_arg (CmdRgb setup vs) = ''-x '' @ setup @ '' -c'' @ join_commas (map show_int vs)"
| "command_arg (CmdWarm b) = ''-w '' @ show_int b"
| "command_arg CmdOn = ''--on''"
| "command_arg CmdOff = ''--off''"
| "command_arg CmdInfo = ''-i''"

definition send_command :: "string \<Rightarrow> string option \<Rightarrow> flux_cmd \<Rightarrow> string" where
  "send_command dirname ip c = dirname @ ''/flux_led.py '' @ js_str ip @ '' '' @ command_arg c"

fun cmd_channels :: "flux_cmd \<Rightarrow> channel list" where
  "cmd_channels (CmdAll _ vs) = vs"
| "cmd_channels (CmdRgb _ vs) = vs"
| "cmd_channels _ = []"

subsection \<open>Reading a command back\<close>

definition read_ints :: "string \<Rightarrow> int list option" where
  "read_ints s = those (map read_int (split_commas s))"

definition parse_setup_cmd :: "string \<Rightarrow> flux_cmd option" where
  "parse_setup_cmd rest =
     (let setup = takeWhile (\<lambda>c. c \<noteq> CHR '' '') rest;
          opt = dropWhile (\<lambda>c. c \<noteq> CHR '' '') rest
      in if take 3 opt = '' -V'' then map_option (CmdAll setup) (read_ints (drop 3 opt))
         else if take 3 opt = '' -c'' then map_option (CmdRgb setup) (read_ints (drop 3 opt))
         else None)"

definition parse_command_arg :: "string \<Rightarrow> flux_cmd option" where
  "parse_command_arg s =
     (if s = ''--on'' then Some CmdOn
      else if s = ''--off'' then Some CmdOff
      else if s = ''-i'' then Some CmdInfo
      else if take 3 s = ''-w '' then map_option CmdWarm (read_int (drop 3 s))
      else if take 3 s = ''-x '' then parse_setup_cmd (drop 3 s)
      else None)"

text \<open>A command is well formed when its setup name has no blank and it carries channel values.\<close>

fun cmd_wf :: "flux_cmd \<Rightarrow> bool" where
  "cmd_wf (CmdAll setup vs) \<longleftrightarrow> CHR '' '' \<notin> set setup \<and> vs \<noteq> []"
| "cmd_wf (CmdRgb setup vs) \<longleftrightarrow> CHR '' '' \<notin> set setup \<and> vs \<noteq> []"
| "cmd_wf _ \<longleftrightarrow> True"

lemma those_map_Some [simp]: "those (map Some xs) = Some xs"
  by (induction xs) auto

lemma read_ints_join [simp]: "vs \<noteq> [] \<Longrightarrow> read_ints (join_commas (map show_int vs)) = Some vs"
proof -
  assume "vs \<noteq> []"
  then have "split_commas (join_commas (map show_int vs)) = map show_int vs"
    by (intro split_join_commas) auto
  then show ?thesis by (simp add: read_ints_def comp_def)
qed

lemma parse_setup_cmd_split:
  assumes "CHR '' '' \<notin> set su"
  shows "parse_setup_cmd (su @ CHR '' '' # CHR ''-'' # c # rest) =
           (if c = CHR ''V'' then map_option (CmdAll su) (read_ints rest)
            else if c = CHR ''c'' then map_option (CmdRgb su) (read_ints rest) else None)"
proof -
  have "takeWhile (\<lambda>c. c \<noteq> CHR '' '') (su @ CHR '' '' # CHR ''-'' # c # rest) = su"
    using assms by (induction su) auto
  moreover have "dropWhile (\<lambda>c. c \<noteq> CHR '' '') (su @ CHR '' '' # CHR ''-'' # c # rest) = CHR '' '' # CHR ''-'' # c # rest"
    using assms by (induction su) auto
  ultimately show ?thesis by (simp add: parse_setup_cmd_def)
qed

text \<open>
  C13. Every well-formed command renders to an argument string from which it
  is read back unchanged: the rendering of \<open>sendCommand\<close>'s argument loses
  nothing, and distinct commands never render to the same string.
\<close>

theorem parse_command_arg_roundtrip: "cmd_wf c \<Longrightarrow> parse_command_arg (command_arg c) = Some c"
proof (cases c)
  case (CmdAll su vs)
  moreover assume "cmd_wf c"
  ultimately show ?thesis
    by (simp add: parse_command_arg_def parse_setup_cmd_split)
next
  case (CmdRgb su vs)
  moreover assume "cmd_wf c"
  ultimately show ?thesis
    by (simp add: parse_command_arg_def parse_setup_cmd_split)
qed (simp_all add: parse_command_arg_def)

theorem parse_command_arg_roundtrip_witness:
  "cmd_wf (CmdAll ''RGBW'' [0, 0, 0, 128, 0])
   \<and> parse_command_arg (command_arg (CmdAll ''RGBW'' [0, 0, 0, 128, 0])) = Some (CmdAll ''RGBW'' [0, 0, 0, 128, 0])"
  using parse_command_arg_roundtrip [of "CmdAll ''RGBW'' [0, 0, 0, 128, 0]"] by simp

end
