(* ===== verification/Channel_Mapper.thy ===== *)
theory Channel_Mapper
  imports Color_Convert Flux_Command
begin

text \<open>
  \<^verbatim>\<open>setToCurrentColor\<close> (\<^verbatim>\<open>src/index.js\<close>, lines 117 to 160): the command
  that renders the accessory's colour and brightness on the configured wiring.
  \<open>set_to_current_color\<close> returns the command it hands to
  \<^verbatim>\<open>sendCommand\<close>; the rendering of that command as a string is
  \<open>command_arg\<close>. \<open>set_to_warm_white\<close> is \<^verbatim>\<open>setToWarmWhite\<close> (lines 162
  to 165), which no handler calls.

  The specification's decision table (section 4.2) is stated separately as an
  explicit policy resolution over an enumerated setup kind, \<open>spec_compute\<close>,
  with the command kinds of its data model (RGB only, all channels, white
  only); \<open>lower_cmd\<close> says how each kind travels on the wire, and the
  refinement lemma shows the code computes exactly what the table prescribes.
\<close>

definition set_to_current_color :: "accessory \<Rightarrow> flux_cmd" where
  "set_to_current_color a =
     (let c = color a; su = acc_setup a; bri = brightness a;
          ww = round (of_int bri / 100 * 255 :: real);
          cw = round (of_int bri / 100 * 255 :: real)
      in if su = ''RGBW'' \<and> onlywhite a then CmdAll su [0, 0, 0, ww, 0]
      else if su = ''RGBWW'' \<and> onlywhite a then
        (case render_rgb c of (r, g, b) \<Rightarrow>
           let wred = 223 :: real; cred = 98 :: real;
               fac = (of_int r - cred) / (wred - cred);
               fac = max 0 (min 1 fac);
               ww = round (fac * of_int bri * 2.55);
               cw = round ((1 - fac) * of_int bri * 2.55)
           in CmdAll su [0, 0, 0, ww, cw])
      else
        (case render_rgb c of (r\<^sub>0, g\<^sub>0, b\<^sub>0) \<Rightarrow>
           let r = round (of_int r\<^sub>0 / 100 * of_int bri :: real);
               g = round (of_int g\<^sub>0 / 100 * of_int bri :: real);
               b = round (of_int b\<^sub>0 / 100 * of_int bri :: real)
           in if combinedwhite a then CmdAll su [r, g, b, ww, cw]
              else if S c = 0 \<and> H c = 0 \<and> purewhite a then CmdAll su [0, 0, 0, ww, cw]
              else CmdRgb su [r, g, b]))"

definition set_to_warm_white :: "accessory \<Rightarrow> flux_cmd" where
  "set_to_warm_white a = CmdWarm (brightness a)"

subsection \<open>The specification's decision table\<close>

datatype setup_kind = SetupRGB | SetupRGBW | SetupRGBWW

datatype channel_command =
    RGBOnly channel channel channel
  | AllChannels channel channel channel channel channel
  | WhiteOnly channel channel

datatype policy = OnlyWhiteRGBW | OnlyWhiteRGBWW | StdPolicy

definition setup_kind_of :: "string \<Rightarrow> setup_kind" where
  "setup_kind_of s = (if s = ''RGBW'' then SetupRGBW else if s = ''RGBWW'' then SetupRGBWW else SetupRGB)"

definition spec_policy :: "setup_kind \<Rightarrow> bool \<Rightarrow> policy" where
  "spec_policy k ow =
     (if k = SetupRGBW \<and> ow then OnlyWhiteRGBW
      else if k = SetupRGBWW \<and> ow then OnlyWhiteRGBWW
      else StdPolicy)"

definition white_level :: "int \<Rightarrow> channel" where
  "white_level bri = round (of_int bri / 100 * 255 :: real)"

definition warm_fac :: "channel \<Rightarrow> real" where
  "warm_fac r = max 0 (min 1 ((of_int r - 98) / (223 - 98)))"

definition spec_compute :: "hsl \<Rightarrow> int \<Rightarrow> setup_kind \<Rightarrow> bool \<Rightarrow> bool \<Rightarrow> bool \<Rightarrow> channel_command" where
  "spec_compute c bri k ow cmb pw =
     (case spec_policy k ow of
        OnlyWhiteRGBW \<Rightarrow> AllChannels 0 0 0 (white_level bri) 0
      | OnlyWhiteRGBWW \<Rightarrow>
          (case render_rgb c of (r, _, _) \<Rightarrow>
             AllChannels 0 0 0 (round (warm_fac r * of_int bri * 2.55))
                               (round ((1 - warm_fac r) * of_int bri * 2.55)))
      | StdPolicy \<Rightarrow>
          (case render_rgb c of (r\<^sub>0, g\<^sub>0, b\<^sub>0) \<Rightarrow>
             let sc = (\<lambda>x. round (of_int x / 100 * of_int bri :: real)) in
             if cmb then AllChannels (sc r\<^sub>0) (sc g\<^sub>0) (sc b\<^sub>0) (white_level bri) (white_level bri)
             else if S c = 0 \<and> H c = 0 \<and> pw then WhiteOnly (white_level bri) (white_level bri)
             else RGBOnly (sc r\<^sub>0) (sc g\<^sub>0) (sc b\<^sub>0)))"

text \<open>A sample accessory for the witnesses below.\<close>

definition demo_acc :: "string \<Rightarrow> hsl \<Rightarrow> int \<Rightarrow> bool \<Rightarrow> bool \<Rightarrow> bool \<Rightarrow> accessory" where
  "demo_acc su c bri pw ow cmb =
     \<lparr>name = ''LED Controller'', acc_setup = su, port = 5577, ip = None, color = c, brightness = bri,
      purewhite = pw, onlywhite = ow, combinedwhite = cmb\<rparr>"

fun lower_cmd :: "string \<Rightarrow> channel_command \<Rightarrow> flux_cmd" where
  "lower_cmd su (RGBOnly r g b) = CmdRgb su [r, g, b]"
| "lower_cmd su (AllChannels r g b ww cw) = CmdAll su [r, g, b, ww, cw]"
| "lower_cmd su (WhiteOnly ww cw) = CmdAll su [0, 0, 0, ww, cw]"

text \<open>
  \<open>nearest_int v p q\<close>: the integer \<open>v\<close> is a nearest integer to \<open>p / q\<close>
  (\<open>q > 0\<close>), i.e. \<open>|v - p/q| \<le> 1/2\<close>. The source rounds quotients computed
  in IEEE doubles, where a quotient that is a tie in exact arithmetic may
  come out just below it (\<open>255 / 100 * 50\<close> is \<open>127.49999999999999\<close>, and
  \<^verbatim>\<open>Math.round\<close> gives 127); stated with \<open>nearest_int\<close>, a property of a
  rounded channel holds for the exact model and for the doubles alike.
\<close>

definition nearest_int :: "int \<Rightarrow> int \<Rightarrow> int \<Rightarrow> bool" where
  "nearest_int v p q \<longleftrightarrow> \<bar>2 * q * v - 2 * p\<bar> \<le> q"

subsection \<open>Closed forms of the policy\<close>

lemma white_level_closed: "round (of_int bri / 100 * 255 :: real) = (51 * bri + 10) div 20"
proof -
  have "(of_int bri / 100 * 255 :: real) = of_int (51 * bri) / of_int 20" by simp
  moreover have "round (of_int (51 * bri) / of_int 20 :: real) = (2 * (51 * bri) + 20) div (2 * 20)"
    by (rule round_of_int_div) simp
  moreover have "(2 * (51 * bri) + 20) div (2 * 20) = (51 * bri + 10) div 20"
    using div_mult_mult1 [of 2 "51 * bri + 10" 20] by (simp add: algebra_simps)
  ultimately show ?thesis by simp
qed

lemma scale_closed: "round (of_int x / 100 * of_int bri :: real) = (x * bri + 50) div 100"
proof -
  have "(of_int x / 100 * of_int bri :: real) = of_int (x * bri) / of_int 100" by simp
  moreover have "round (of_int (x * bri) / of_int 100 :: real) = (2 * (x * bri) + 100) div (2 * 100)"
    by (rule round_of_int_div) simp
  moreover have "(2 * (x * bri) + 100) div (2 * 100) = (x * bri + 50) div 100"
    using div_mult_mult1 [of 2 "x * bri + 50" 100] by (simp add: algebra_simps)
  ultimately show ?thesis by simp
qed


lemma warm_fac_unit: "0 \<le> warm_fac r \<and> warm_fac r \<le> 1"
  by (simp add: warm_fac_def)

lemma round_sum_le:
  fixes x y :: real
  shows "of_int (round x + round y) \<le> x + y + 1"
  using of_int_round_le [of x] of_int_round_le [of y] by simp

lemma odd_div_pair:
  assumes "odd (u::int)"
  shows "u div 50 + (12800 - u) div 50 = 255"
proof -
  define q where "q = u div 50"
  define m where "m = u mod 50"
  have u: "u = 50 * q + m" by (simp add: q_def m_def)
  have m: "0 \<le> m" "m < 50" by (simp_all add: m_def)
  have "m \<noteq> 0"
  proof
    assume "m = 0"
    with u have "u = 2 * (25 * q)" by simp
    with assms show False by simp
  qed
  with m have "(12800 - u) div 50 = 255 - q"
    by (intro int_div_pos_eq [where r = "50 - m"]) (simp_all add: u)
  then show ?thesis by (simp add: q_def)
qed
lemma mix_range:
  assumes "0 \<le> bri" "bri \<le> 100"
  shows "0 \<le> round (warm_fac r * of_int bri * 2.55) \<and> 0 \<le> round ((1 - warm_fac r) * of_int bri * 2.55)
         \<and> round (warm_fac r * of_int bri * 2.55) + round ((1 - warm_fac r) * of_int bri * 2.55) \<le> 255"
proof -
  define f where "f = warm_fac r"
  have f: "0 \<le> f" "f \<le> 1" using warm_fac_unit [of r] by (simp_all add: f_def)
  have "0 \<le> f * of_int bri * 2.55" "0 \<le> (1 - f) * of_int bri * 2.55"
    using f assms by (intro mult_nonneg_nonneg; simp)+
  then have nn: "0 \<le> round (f * of_int bri * 2.55) \<and> 0 \<le> round ((1 - f) * of_int bri * 2.55)"
    using round_mono [of 0] by fastforce
  have sum: "round (f * of_int bri * 2.55) + round ((1 - f) * of_int bri * 2.55) \<le> 255"
  proof (cases "bri \<le> 99")
    case True
    have "of_int (round (f * of_int bri * 2.55) + round ((1 - f) * of_int bri * 2.55)) \<le> f * of_int bri * 2.55 + (1 - f) * of_int bri * 2.55 + (1 :: real)"
      by (rule round_sum_le)
    also have "\<dots> = of_int bri * 2.55 + 1" by (simp add: field_simps)
    also have "\<dots> < 254" using True by simp
    finally show ?thesis by simp
  next
    case False
    with assms have b: "bri = 100" by simp
    show ?thesis
    proof (cases "98 < r \<and> r < 223")
      case True
      then have fr: "f = (of_int r - 98) / 125" by (simp add: f_def warm_fac_def)
      have ew: "f * of_int bri * 2.55 = of_int (51 * (r - 98)) / of_int 25"
        by (simp add: fr b field_simps)
      have w: "round (f * of_int bri * 2.55) = (2 * (51 * (r - 98)) + 25) div (2 * 25)"
        unfolding ew by (rule round_of_int_div) simp
      have ec: "(1 - f) * of_int bri * 2.55 = of_int (51 * (223 - r)) / of_int 25"
        by (simp add: fr b field_simps)
      have c: "round ((1 - f) * of_int bri * 2.55) = (2 * (51 * (223 - r)) + 25) div (2 * 25)"
        unfolding ec by (rule round_of_int_div) simp
      have e: "2 * (51 * (223 - r)) + 25 = 12800 - (2 * (51 * (r - 98)) + 25)" by simp
      have "(2 * (51 * (r - 98)) + 25) div 50 + (12800 - (2 * (51 * (r - 98)) + 25)) div 50 = 255"
        by (rule odd_div_pair) simp
      then show ?thesis unfolding w c e by simp
    next
      case False
      then have "f = 0 \<or> f = 1" by (auto simp: f_def warm_fac_def)
      then show ?thesis using b by auto
    qed
  qed
  from nn sum show ?thesis by (simp add: f_def)
qed

lemma set_to_current_color_closed:
  "set_to_current_color a =
     (let c = color a; su = acc_setup a; bri = brightness a; w = (51 * bri + 10) div 20 in
      if su = ''RGBW'' \<and> onlywhite a then CmdAll su [0, 0, 0, w, 0]
      else case render_rgb c of (r, g, b) \<Rightarrow>
        if su = ''RGBWW'' \<and> onlywhite a
        then CmdAll su [0, 0, 0, round (warm_fac r * of_int bri * 2.55), round ((1 - warm_fac r) * of_int bri * 2.55)]
        else if combinedwhite a
        then CmdAll su [(r * bri + 50) div 100, (g * bri + 50) div 100, (b * bri + 50) div 100, w, w]
        else if S c = 0 \<and> H c = 0 \<and> purewhite a then CmdAll su [0, 0, 0, w, w]
        else CmdRgb su [(r * bri + 50) div 100, (g * bri + 50) div 100, (b * bri + 50) div 100])"
  unfolding set_to_current_color_def Let_def white_level_closed scale_closed warm_fac_def [symmetric]
  by (simp split: prod.split)

lemma mix_full: "round (1 * of_int bri * 2.55 :: real) = (51 * bri + 10) div 20"
proof -
  have "(1 * of_int bri * 2.55 :: real) = of_int bri / 100 * 255" by simp
  then show ?thesis by (simp only: white_level_closed)
qed

lemma mix_none: "round ((1 - 1) * of_int bri * 2.55 :: real) = 0"
  by simp

lemma nearest_int_round:
  assumes q: "0 < q"
  shows "nearest_int (round (of_int p / of_int q :: real)) p q"
proof -
  define x where "x = (of_int p / of_int q :: real)"
  have err: "\<bar>of_int (round x) - x\<bar> \<le> 1/2" by (rule of_int_round_abs_le)
  have e: "2 * of_int q * (of_int (round x) - x) = (of_int (2 * q * round x - 2 * p) :: real)"
    using q by (simp add: x_def field_simps)
  have "\<bar>of_int (2 * q * round x - 2 * p) :: real\<bar> = \<bar>2 * of_int q\<bar> * \<bar>of_int (round x) - x\<bar>"
    by (simp only: e [symmetric] abs_mult)
  also have "\<dots> = 2 * of_int q * \<bar>of_int (round x) - x\<bar>" using q by simp
  also have "\<dots> \<le> 2 * of_int q * (1/2)"
    using q err by (intro mult_left_mono) simp_all
  finally have "\<bar>of_int (2 * q * round x - 2 * p) :: real\<bar> \<le> of_int q" by simp
  then show ?thesis unfolding nearest_int_def x_def [symmetric] by linarith
qed

lemma nearest_scale: "nearest_int ((x * bri + 50) div 100) (x * bri) 100"
proof -
  have "(of_int x / 100 * of_int bri :: real) = of_int (x * bri) / of_int 100" by simp
  then show ?thesis using nearest_int_round [of 100 "x * bri"] scale_closed [of x bri] by simp
qed

lemma nearest_white: "nearest_int ((51 * bri + 10) div 20) (51 * bri) 20"
proof -
  have "(of_int bri / 100 * 255 :: real) = of_int (51 * bri) / of_int 20" by simp
  then show ?thesis using nearest_int_round [of 20 "51 * bri"] white_level_closed [of bri] by simp
qed

lemma set_to_current_color_rgbww:
  assumes "acc_setup a = ''RGBWW''" "onlywhite a"
    and "render_rgb (color a) = (r, g, b)"
  shows "set_to_current_color a = CmdAll ''RGBWW'' [0, 0, 0, round (warm_fac r * of_int (brightness a) * 2.55),
          round ((1 - warm_fac r) * of_int (brightness a) * 2.55)]"
  using assms by (simp add: set_to_current_color_closed Let_def)

lemma div_range:
  fixes a b c :: int
  assumes "0 \<le> a" "a \<le> c" "0 < b"
  shows "0 \<le> a div b \<and> a div b \<le> c div b"
  using assms by (simp add: pos_imp_zdiv_nonneg_iff zdiv_mono1)

lemma white_range: "0 \<le> bri \<Longrightarrow> bri \<le> 100 \<Longrightarrow> 0 \<le> (51 * bri + 10) div 20 \<and> (51 * bri + 10) div 20 \<le> (255::int)"
  using div_range [of "51 * bri + 10" 5110 20] by simp

lemma percent_range: "0 \<le> k \<Longrightarrow> k \<le> 25500 \<Longrightarrow> 0 \<le> (k + 50) div 100 \<and> (k + 50) div 100 \<le> (255::int)"
  using div_range [of "k + 50" 25550 100] by simp

lemma scale_range:
  assumes "0 \<le> x" "x \<le> 255" "0 \<le> bri" "bri \<le> 100"
  shows "0 \<le> (x * bri + 50) div 100 \<and> (x * bri + 50) div 100 \<le> (255::int)"
proof (rule percent_range)
  show "0 \<le> x * bri" using assms by simp
  have "x * bri \<le> 255 * 100" using assms by (intro mult_mono) auto
  then show "x * bri \<le> 25500" by simp
qed

lemma set_to_current_color_bytes:
  assumes "acc_wf a"
  shows "\<forall>v \<in> set (cmd_channels (set_to_current_color a)). 0 \<le> v \<and> v \<le> 255"
proof -
  obtain r g b where rgb: "render_rgb (color a) = (r, g, b)"
    by (metis prod_cases3)
  from assms have wf: "0 \<le> H (color a)" "0 \<le> S (color a)" "S (color a) \<le> 100" "0 \<le> L (color a)"
      "L (color a) \<le> 100" "0 \<le> brightness a" "brightness a \<le> 100"
    by (simp_all add: acc_wf_def hsl_wf_def)
  then have "0 \<le> r \<and> r \<le> 255 \<and> 0 \<le> g \<and> g \<le> 255 \<and> 0 \<le> b \<and> b \<le> 255"
    using hsl_rgb_range [OF _ _ _ _ _ rgb [unfolded render_rgb_def]] by simp
  then have sc: "0 \<le> (x * brightness a + 50) div 100 \<and> (x * brightness a + 50) div 100 \<le> 255"
    if "x \<in> {r, g, b}" for x
    using that wf(6,7) scale_range by auto
  have w: "0 \<le> (51 * brightness a + 10) div 20 \<and> (51 * brightness a + 10) div 20 \<le> 255"
    using wf(6,7) by (rule white_range)
  have m: "0 \<le> round (warm_fac r * of_int (brightness a) * 2.55) \<and> 0 \<le> round ((1 - warm_fac r) * of_int (brightness a) * 2.55)
         \<and> round (warm_fac r * of_int (brightness a) * 2.55) + round ((1 - warm_fac r) * of_int (brightness a) * 2.55) \<le> 255"
    using wf(6,7) by (rule mix_range)
  show ?thesis
    using sc [of r] sc [of g] sc [of b] w m
    by (simp add: set_to_current_color_closed rgb Let_def)
qed

text \<open>
  C1. Every channel value \<^verbatim>\<open>setToCurrentColor\<close> sends lies within 0..255,
  in every branch of the policy, whenever the accessory's hue is non-negative
  and its saturation, lightness and brightness are within 0..100.
\<close>

theorem set_to_current_color_channel_bounds:
  assumes "acc_wf a"
  shows "\<forall>v \<in> set (cmd_channels (set_to_current_color a)). 0 \<le> v \<and> v \<le> 255"
  using assms by (rule set_to_current_color_bytes)

theorem set_to_current_color_channel_bounds_witness:
  "acc_wf (demo_acc ''RGBWW'' \<lparr>H = 30, S = 100, L = 40\<rparr> 70 False False True)
   \<and> set (cmd_channels (set_to_current_color (demo_acc ''RGBWW'' \<lparr>H = 30, S = 100, L = 40\<rparr> 70 False False True)))
       \<subseteq> {0..255}"
proof -
  have wf: "acc_wf (demo_acc ''RGBWW'' \<lparr>H = 30, S = 100, L = 40\<rparr> 70 False False True)"
    by (simp add: demo_acc_def acc_wf_def hsl_wf_def)
  with set_to_current_color_channel_bounds [OF wf] show ?thesis by auto
qed

text \<open>
  C2. \<^verbatim>\<open>setToCurrentColor\<close> implements the specification's decision table:
  its string comparisons on the setup resolve the same policy as the ordered
  table over the enumerated setup kinds (any setup other than RGBW and RGBWW
  behaves as RGB), and each command kind of the table travels as the source
  sends it, the white-only kind as an all-channel command with the colour
  channels at 0.
\<close>

theorem set_to_current_color_refines_spec:
  "set_to_current_color a =
     lower_cmd (acc_setup a) (spec_compute (color a) (brightness a) (setup_kind_of (acc_setup a))
                 (onlywhite a) (combinedwhite a) (purewhite a))"
  by (auto simp: set_to_current_color_def spec_compute_def spec_policy_def setup_kind_of_def
        white_level_def warm_fac_def Let_def split: prod.split)

text \<open>
  C3. On an RGBW controller in only-white mode the colour is ignored: the
  command drives the white channel alone, at \<open>round(brightness / 100 * 255)\<close>,
  which is \<open>(51 * brightness + 10) div 20\<close> in integers (50 gives 128).
\<close>

theorem rgbw_onlywhite_command:
  "acc_setup a = ''RGBW'' \<Longrightarrow> onlywhite a \<Longrightarrow>
   set_to_current_color a = CmdAll ''RGBW'' [0, 0, 0, (51 * brightness a + 10) div 20, 0]"
  by (simp add: set_to_current_color_closed)

text \<open>
  C4. On an RGBWW controller in only-white mode the command drives the two
  white channels only, each non-negative, and their sum never exceeds 255 for
  a brightness within 0..100: the warm share \<open>fac\<close> is clamped to [0, 1],
  and at full brightness the two rounded shares cannot both round up, since
  \<open>51 * (r - 98) / 25\<close> is never an odd multiple of one half.
\<close>

theorem rgbww_onlywhite_mix:
  assumes "acc_setup a = ''RGBWW''" "onlywhite a" "0 \<le> brightness a" "brightness a \<le> 100"
  shows "\<exists>ww cw. set_to_current_color a = CmdAll ''RGBWW'' [0, 0, 0, ww, cw] \<and> 0 \<le> ww \<and> 0 \<le> cw \<and> ww + cw \<le> 255"
proof -
  obtain r g b where rgb: "render_rgb (color a) = (r, g, b)"
    by (metis prod_cases3)
  have "set_to_current_color a = CmdAll ''RGBWW'' [0, 0, 0, round (warm_fac r * of_int (brightness a) * 2.55),
          round ((1 - warm_fac r) * of_int (brightness a) * 2.55)]"
    using assms(1,2) rgb by (rule set_to_current_color_rgbww)
  with mix_range [OF assms(3,4), of r] show ?thesis by blast
qed

text \<open>
  C5. A colour whose red channel renders at 223 or more is all warm white:
  the cold channel is 0 and the warm one is a nearest integer to
  \<open>brightness * 2.55\<close>, the full white level.
\<close>

theorem rgbww_warm_end:
  assumes "acc_setup a = ''RGBWW''" "onlywhite a"
    and "render_rgb (color a) = (r, g, b)" "223 \<le> r"
  shows "\<exists>ww. set_to_current_color a = CmdAll ''RGBWW'' [0, 0, 0, ww, 0]
           \<and> nearest_int ww (51 * brightness a) 20"
proof -
  have "warm_fac r = 1" using assms(4) by (simp add: warm_fac_def)
  with set_to_current_color_rgbww [OF assms(1-3)]
  have "set_to_current_color a = CmdAll ''RGBWW'' [0, 0, 0, (51 * brightness a + 10) div 20, 0]"
    by (simp only: mix_full mix_none)
  then show ?thesis using nearest_white by blast
qed

text \<open>
  C6. A colour whose red channel renders at 98 or less is all cold white:
  the warm channel is 0 and the cold one is a nearest integer to
  \<open>brightness * 2.55\<close>.
\<close>

theorem rgbww_cold_end:
  assumes "acc_setup a = ''RGBWW''" "onlywhite a"
    and "render_rgb (color a) = (r, g, b)" "r \<le> 98"
  shows "\<exists>cw. set_to_current_color a = CmdAll ''RGBWW'' [0, 0, 0, 0, cw]
           \<and> nearest_int cw (51 * brightness a) 20"
proof -
  have "warm_fac r = 0" using assms(4) by (simp add: warm_fac_def)
  moreover have "round ((1 - 0) * of_int (brightness a) * 2.55 :: real) = (51 * brightness a + 10) div 20"
    using mix_full [of "brightness a"] by simp
  ultimately have "set_to_current_color a = CmdAll ''RGBWW'' [0, 0, 0, 0, (51 * brightness a + 10) div 20]"
    using set_to_current_color_rgbww [OF assms(1-3)] by simp
  then show ?thesis using nearest_white by blast
qed

text \<open>
  C7. In combined-white mode (when no only-white mode applies) the command
  sets all five channels: each colour channel a nearest integer to the
  rendered channel times brightness percent, and both white channels at the
  brightness level \<^verbatim>\<open>Math.round(brightness / 100 * 255)\<close>.
\<close>

theorem combinedwhite_command:
  assumes "\<not> ((acc_setup a = ''RGBW'' \<or> acc_setup a = ''RGBWW'') \<and> onlywhite a)" "combinedwhite a"
    and "render_rgb (color a) = (r, g, b)"
  shows "\<exists>r' g' b'. set_to_current_color a = CmdAll (acc_setup a)
           [r', g', b', (51 * brightness a + 10) div 20, (51 * brightness a + 10) div 20]
           \<and> nearest_int r' (r * brightness a) 100 \<and> nearest_int g' (g * brightness a) 100
           \<and> nearest_int b' (b * brightness a) 100"
proof -
  have "set_to_current_color a = CmdAll (acc_setup a)
           [(r * brightness a + 50) div 100, (g * brightness a + 50) div 100, (b * brightness a + 50) div 100,
            (51 * brightness a + 10) div 20, (51 * brightness a + 10) div 20]"
    using assms by (auto simp: set_to_current_color_closed Let_def)
  then show ?thesis using nearest_scale by blast
qed

text \<open>
  C8. With pure white enabled and combined white off, the white sentinel
  (hue 0, saturation 0) is rendered on the white channels alone, the colour
  channels set to 0, whatever the lightness.
\<close>

theorem purewhite_command:
  assumes "\<not> ((acc_setup a = ''RGBW'' \<or> acc_setup a = ''RGBWW'') \<and> onlywhite a)" "\<not> combinedwhite a"
    and "S (color a) = 0" "H (color a) = 0" "purewhite a"
  shows "set_to_current_color a = CmdAll (acc_setup a) [0, 0, 0, (51 * brightness a + 10) div 20, (51 * brightness a + 10) div 20]"
  using assms by (auto simp: set_to_current_color_closed Let_def split: prod.split)

text \<open>
  C9. Otherwise only the colour channels are sent, and the brightness scales
  each rendered channel linearly: \<^verbatim>\<open>Math.round(c / 100 * brightness)\<close>
  is a nearest integer to the channel times brightness percent, so brightness
  100 sends the rendered colour unchanged. The specification's remark that
  this treats the channel as a percentage and gives a non-linear response
  does not describe the code.
\<close>

theorem rgb_only_linear_scaling:
  assumes "\<not> ((acc_setup a = ''RGBW'' \<or> acc_setup a = ''RGBWW'') \<and> onlywhite a)" "\<not> combinedwhite a"
    and "\<not> (S (color a) = 0 \<and> H (color a) = 0 \<and> purewhite a)"
    and "render_rgb (color a) = (r, g, b)"
  shows "\<exists>r' g' b'. set_to_current_color a = CmdRgb (acc_setup a) [r', g', b']
           \<and> nearest_int r' (r * brightness a) 100 \<and> nearest_int g' (g * brightness a) 100
           \<and> nearest_int b' (b * brightness a) 100"
proof -
  have "set_to_current_color a = CmdRgb (acc_setup a)
           [(r * brightness a + 50) div 100, (g * brightness a + 50) div 100, (b * brightness a + 50) div 100]"
    using assms by (auto simp: set_to_current_color_closed Let_def)
  then show ?thesis using nearest_scale by blast
qed

theorem rgbw_onlywhite_command_witness:
  "acc_setup (demo_acc ''RGBW'' \<lparr>H = 120, S = 100, L = 50\<rparr> 50 False True False) = ''RGBW''
   \<and> onlywhite (demo_acc ''RGBW'' \<lparr>H = 120, S = 100, L = 50\<rparr> 50 False True False)
   \<and> set_to_current_color (demo_acc ''RGBW'' \<lparr>H = 120, S = 100, L = 50\<rparr> 50 False True False)
       = CmdAll ''RGBW'' [0, 0, 0, 128, 0]"
  using rgbw_onlywhite_command [of "demo_acc ''RGBW'' \<lparr>H = 120, S = 100, L = 50\<rparr> 50 False True False"]
  by (simp add: demo_acc_def)

theorem rgbww_onlywhite_mix_witness:
  "acc_setup (demo_acc ''RGBWW'' \<lparr>H = 30, S = 100, L = 60\<rparr> 100 False True False) = ''RGBWW''
   \<and> onlywhite (demo_acc ''RGBWW'' \<lparr>H = 30, S = 100, L = 60\<rparr> 100 False True False)
   \<and> (\<exists>ww cw. set_to_current_color (demo_acc ''RGBWW'' \<lparr>H = 30, S = 100, L = 60\<rparr> 100 False True False)
         = CmdAll ''RGBWW'' [0, 0, 0, ww, cw] \<and> 0 \<le> ww \<and> 0 \<le> cw \<and> ww + cw \<le> 255)"
  using rgbww_onlywhite_mix [of "demo_acc ''RGBWW'' \<lparr>H = 30, S = 100, L = 60\<rparr> 100 False True False"]
  by (simp add: demo_acc_def)

theorem rgbww_warm_end_witness:
  "acc_setup (demo_acc ''RGBWW'' \<lparr>H = 0, S = 100, L = 50\<rparr> 50 False True False) = ''RGBWW''
   \<and> onlywhite (demo_acc ''RGBWW'' \<lparr>H = 0, S = 100, L = 50\<rparr> 50 False True False)
   \<and> render_rgb (color (demo_acc ''RGBWW'' \<lparr>H = 0, S = 100, L = 50\<rparr> 50 False True False)) = (255, 0, 0)
   \<and> (223::int) \<le> 255
   \<and> (\<exists>ww. set_to_current_color (demo_acc ''RGBWW'' \<lparr>H = 0, S = 100, L = 50\<rparr> 50 False True False)
          = CmdAll ''RGBWW'' [0, 0, 0, ww, 0] \<and> nearest_int ww (51 * 50) 20)"
proof -
  have rgb: "render_rgb \<lparr>H = 0, S = 100, L = 50\<rparr> = (255, 0, 0)" by (simp add: color_convert_defs Let_def)
  then show ?thesis
    using rgbww_warm_end [of "demo_acc ''RGBWW'' \<lparr>H = 0, S = 100, L = 50\<rparr> 50 False True False" 255 0 0]
    by (simp add: demo_acc_def)
qed

theorem rgbww_cold_end_witness:
  "acc_setup (demo_acc ''RGBWW'' \<lparr>H = 180, S = 100, L = 50\<rparr> 90 False True False) = ''RGBWW''
   \<and> onlywhite (demo_acc ''RGBWW'' \<lparr>H = 180, S = 100, L = 50\<rparr> 90 False True False)
   \<and> render_rgb (color (demo_acc ''RGBWW'' \<lparr>H = 180, S = 100, L = 50\<rparr> 90 False True False)) = (0, 255, 255)
   \<and> (0::int) \<le> 98
   \<and> (\<exists>cw. set_to_current_color (demo_acc ''RGBWW'' \<lparr>H = 180, S = 100, L = 50\<rparr> 90 False True False)
          = CmdAll ''RGBWW'' [0, 0, 0, 0, cw] \<and> nearest_int cw (51 * 90) 20)"
proof -
  have rgb: "render_rgb \<lparr>H = 180, S = 100, L = 50\<rparr> = (0, 255, 255)" by (simp add: color_convert_defs Let_def)
  then show ?thesis
    using rgbww_cold_end [of "demo_acc ''RGBWW'' \<lparr>H = 180, S = 100, L = 50\<rparr> 90 False True False" 0 255 255]
    by (simp add: demo_acc_def)
qed

theorem combinedwhite_command_witness:
  "\<not> ((acc_setup (demo_acc ''RGBW'' \<lparr>H = 120, S = 100, L = 50\<rparr> 50 False False True) = ''RGBW''
        \<or> acc_setup (demo_acc ''RGBW'' \<lparr>H = 120, S = 100, L = 50\<rparr> 50 False False True) = ''RGBWW'')
       \<and> onlywhite (demo_acc ''RGBW'' \<lparr>H = 120, S = 100, L = 50\<rparr> 50 False False True))
   \<and> combinedwhite (demo_acc ''RGBW'' \<lparr>H = 120, S = 100, L = 50\<rparr> 50 False False True)
   \<and> render_rgb (color (demo_acc ''RGBW'' \<lparr>H = 120, S = 100, L = 50\<rparr> 50 False False True)) = (0, 255, 0)
   \<and> (\<exists>r' g' b'. set_to_current_color (demo_acc ''RGBW'' \<lparr>H = 120, S = 100, L = 50\<rparr> 50 False False True)
          = CmdAll ''RGBW'' [r', g', b', 128, 128]
        \<and> nearest_int r' (0 * 50) 100 \<and> nearest_int g' (255 * 50) 100 \<and> nearest_int b' (0 * 50) 100)"
proof -
  have rgb: "render_rgb \<lparr>H = 120, S = 100, L = 50\<rparr> = (0, 255, 0)" by (simp add: color_convert_defs Let_def)
  then show ?thesis
    using combinedwhite_command [of "demo_acc ''RGBW'' \<lparr>H = 120, S = 100, L = 50\<rparr> 50 False False True" 0 255 0]
    by (simp add: demo_acc_def)
qed

theorem purewhite_command_witness:
  "set_to_current_color (demo_acc ''RGBW'' \<lparr>H = 0, S = 0, L = 50\<rparr> 80 True False False)
     = CmdAll ''RGBW'' [0, 0, 0, 204, 204]"
  using purewhite_command [of "demo_acc ''RGBW'' \<lparr>H = 0, S = 0, L = 50\<rparr> 80 True False False"]
  by (simp add: demo_acc_def)

theorem rgb_only_linear_scaling_witness:
  "\<not> ((acc_setup (demo_acc ''RGB'' \<lparr>H = 120, S = 100, L = 50\<rparr> 50 False False False) = ''RGBW''
        \<or> acc_setup (demo_acc ''RGB'' \<lparr>H = 120, S = 100, L = 50\<rparr> 50 False False False) = ''RGBWW'')
       \<and> onlywhite (demo_acc ''RGB'' \<lparr>H = 120, S = 100, L = 50\<rparr> 50 False False False))
   \<and> \<not> combinedwhite (demo_acc ''RGB'' \<lparr>H = 120, S = 100, L = 50\<rparr> 50 False False False)
   \<and> \<not> (S (color (demo_acc ''RGB'' \<lparr>H = 120, S = 100, L = 50\<rparr> 50 False False False)) = 0
        \<and> H (color (demo_acc ''RGB'' \<lparr>H = 120, S = 100, L = 50\<rparr> 50 False False False)) = 0
        \<and> purewhite (demo_acc ''RGB'' \<lparr>H = 120, S = 100, L = 50\<rparr> 50 False False False))
   \<and> render_rgb (color (demo_acc ''RGB'' \<lparr>H = 120, S = 100, L = 50\<rparr> 50 False False False)) = (0, 255, 0)
   \<and> (\<exists>r' g' b'. set_to_current_color (demo_acc ''RGB'' \<lparr>H = 120, S = 100, L = 50\<rparr> 50 False False False)
          = CmdRgb ''RGB'' [r', g', b']
        \<and> nearest_int r' (0 * 50) 100 \<and> nearest_int g' (255 * 50) 100 \<and> nearest_int b' (0 * 50) 100)"
proof -
  have rgb: "render_rgb \<lparr>H = 120, S = 100, L = 50\<rparr> = (0, 255, 0)" by (simp add: color_convert_defs Let_def)
  then show ?thesis
    using rgb_only_linear_scaling [of "demo_acc ''RGB'' \<lparr>H = 120, S = 100, L = 50\<rparr> 50 False False False" 0 255 0]
    by (simp add: demo_acc_def)
qed

end
