(* ===== verification/Accessory.thy ===== *)
theory Accessory
  imports Device_State Channel_Mapper "HOL-Library.Sublist"
begin

text \<open>
  The accessory object of \<^verbatim>\<open>src/index.js\<close> as an event-driven state machine.
  Its state is the record \<open>mh_sys\<close>: the fields of the JavaScript object
  (\<open>acc\<close>), every command line \<^verbatim>\<open>sendCommand\<close> has issued (\<open>sent\<close>), the
  child processes started by \<^verbatim>\<open>exec\<close> that have not completed yet, each with
  the callback \<^verbatim>\<open>exec\<close> will call (\<open>running\<close>), and the callbacks handed back
  to HomeKit (\<open>replies\<close>), and the lines written to the Homebridge log
  (\<open>logs\<close>, formatted by \<open>format_s\<close> as \<^verbatim>\<open>util.format\<close> does).
  One definition per method: the constructor \<open>new_accessory\<close> (lines 16 to
  31), \<open>identify\<close>, \<open>send_command_eff\<close>, \<open>get_state\<close>,
  \<open>get_color_from_device\<close>, \<open>set_to_current_color_eff\<close> and the eight
  characteristic handlers (lines 169 to 224). \<open>hk_step\<close> is the
  accessory's event interface: a get or set of a characteristic runs the
  handler for it, and \<open>ExecDone i out\<close> is Node's event loop delivering the
  completion of the \<open>i\<close>-th running child process with standard output
  \<open>out\<close>. That the bindings \<^verbatim>\<open>getServices\<close> (lines 38 to 70) makes are
  exactly this interface is proved in theory \<open>Services\<close>. Processes complete in any order, so an
  interleaving is a list of events, run by \<open>hk_run\<close>, and \<open>reachable cfg\<close>
  holds of the states some interleaving of well-formed events reaches from
  the constructor.
\<close>

subsection \<open>State\<close>

text \<open>The callback \<^verbatim>\<open>sendCommand\<close> passes to \<^verbatim>\<open>exec\<close>.\<close>

datatype continuation =
    NoCallback    \<comment> \<open>\<^verbatim>\<open>setToCurrentColor\<close>: \<^verbatim>\<open>sendCommand(cmd)\<close>\<close>
  | ColorSync     \<comment> \<open>\<^verbatim>\<open>getState\<close> called from \<^verbatim>\<open>getColorFromDevice\<close>\<close>
  | PowerGet      \<comment> \<open>\<^verbatim>\<open>getState\<close> called from \<^verbatim>\<open>getPowerState\<close>\<close>
  | PowerSetDone  \<comment> \<open>\<^verbatim>\<open>setPowerState\<close>: \<^verbatim>\<open>callback()\<close> once the command ran\<close>

text \<open>What a HomeKit callback receives: \<^verbatim>\<open>callback()\<close> or \<^verbatim>\<open>callback(null, v)\<close>.\<close>

datatype hk_reply = HKDone | HKInt int | HKBool bool

record mh_sys =
  acc :: accessory
  sent :: "flux_cmd list"
  running :: "(flux_cmd \<times> continuation) list"
  replies :: "hk_reply list"
  logs :: "string list"

subsection \<open>Logging\<close>

text \<open>
  \<^verbatim>\<open>this.log(fmt, arg)\<close> formats with Node's \<^verbatim>\<open>util.format\<close>: the first
  \<^verbatim>\<open>%s\<close> of the format is replaced by \<^verbatim>\<open>String(arg)\<close>; with no
  placeholder left the argument is appended after a blank. (The \<^verbatim>\<open>%%\<close>
  escape does not occur in the source's formats.) The logger's output is the
  list \<open>logs\<close> of the state.
\<close>

fun format_s :: "string \<Rightarrow> string \<Rightarrow> string" where
  "format_s [] a = CHR '' '' # a"
| "format_s [c] a = [c, CHR '' ''] @ a"
| "format_s (c # d # cs) a = (if c = CHR ''%'' \<and> d = CHR ''s'' then a @ cs else c # format_s (d # cs) a)"

definition log_msg :: "string \<Rightarrow> mh_sys \<Rightarrow> mh_sys" where
  "log_msg m s = s\<lparr>logs := logs s @ [m]\<rparr>"

subsection \<open>Methods\<close>

definition send_command_eff :: "flux_cmd \<Rightarrow> continuation \<Rightarrow> mh_sys \<Rightarrow> mh_sys" where
  "send_command_eff c k s = s\<lparr>sent := sent s @ [c], running := running s @ [(c, k)]\<rparr>"

definition get_state :: "continuation \<Rightarrow> mh_sys \<Rightarrow> mh_sys" where
  "get_state k s = send_command_eff CmdInfo k s"

definition get_color_from_device :: "mh_sys \<Rightarrow> mh_sys" where
  "get_color_from_device s = get_state ColorSync s"

definition new_accessory :: "mh_config \<Rightarrow> mh_sys" where
  "new_accessory cfg = get_color_from_device \<lparr>acc = new_fields cfg, sent = [], running = [], replies = [], logs = []\<rparr>"

definition hk_callback :: "hk_reply \<Rightarrow> mh_sys \<Rightarrow> mh_sys" where
  "hk_callback r s = s\<lparr>replies := replies s @ [r]\<rparr>"

definition identify :: "mh_sys \<Rightarrow> mh_sys" where
  "identify s = hk_callback HKDone (log_msg ''Identify requested!'' s)"

definition set_to_current_color_eff :: "mh_sys \<Rightarrow> mh_sys" where
  "set_to_current_color_eff s = send_command_eff (set_to_current_color (acc s)) NoCallback s"

definition get_power_state :: "mh_sys \<Rightarrow> mh_sys" where
  "get_power_state s = get_state PowerGet s"

definition set_power_state :: "bool \<Rightarrow> mh_sys \<Rightarrow> mh_sys" where
  "set_power_state v s = send_command_eff (if v then CmdOn else CmdOff) PowerSetDone s"

definition get_hue :: "mh_sys \<Rightarrow> mh_sys" where
  "get_hue s = hk_callback (HKInt (H (color (acc s)))) s"

definition set_hue :: "int \<Rightarrow> mh_sys \<Rightarrow> mh_sys" where
  "set_hue v s = hk_callback HKDone (log_msg (format_s ''HUE: %s'' (show_int v))
     (set_to_current_color_eff (s\<lparr>acc := (acc s)\<lparr>color := (color (acc s))\<lparr>H := v\<rparr>\<rparr>\<rparr>)))"

definition get_brightness :: "mh_sys \<Rightarrow> mh_sys" where
  "get_brightness s = hk_callback (HKInt (brightness (acc s))) s"

definition set_brightness :: "int \<Rightarrow> mh_sys \<Rightarrow> mh_sys" where
  "set_brightness v s = hk_callback HKDone (log_msg (format_s ''BRIGHTNESS: %s'' (show_int v))
     (set_to_current_color_eff (s\<lparr>acc := (acc s)\<lparr>brightness := v\<rparr>\<rparr>)))"

definition get_saturation :: "mh_sys \<Rightarrow> mh_sys" where
  "get_saturation s = hk_callback (HKInt (S (color (acc s)))) s"

definition set_saturation :: "int \<Rightarrow> mh_sys \<Rightarrow> mh_sys" where
  "set_saturation v s = hk_callback HKDone (log_msg (format_s ''SATURATION: %s'' (show_int v))
     (set_to_current_color_eff (s\<lparr>acc := (acc s)\<lparr>color := (color (acc s))\<lparr>S := v\<rparr>\<rparr>\<rparr>)))"

subsection \<open>Completion of a child process\<close>

definition del_nth :: "nat \<Rightarrow> 'a list \<Rightarrow> 'a list" where
  "del_nth i xs = take i xs @ drop (Suc i) xs"

text \<open>
  The callbacks: \<^verbatim>\<open>getColorFromDevice\<close>'s stores the colour read back
  (line 108), \<^verbatim>\<open>getPowerState\<close>'s hands the power flag to HomeKit (line 171),
  \<^verbatim>\<open>setPowerState\<close>'s calls \<^verbatim>\<open>callback()\<close> (line 177).
\<close>

fun run_callback :: "continuation \<Rightarrow> string \<Rightarrow> mh_sys \<Rightarrow> mh_sys" where
  "run_callback NoCallback out s = s"
| "run_callback ColorSync out s =
     (let c = st_color (get_state_reply out)
      in log_msg (format_s ''DEVICE COLOR: %s'' (show_int (H c) @ '','' @ show_int (S c) @ '','' @ show_int (L c)))
           (s\<lparr>acc := (acc s)\<lparr>color := c\<rparr>\<rparr>))"
| "run_callback PowerGet out s = hk_callback (HKBool (st_on (get_state_reply out))) s"
| "run_callback PowerSetDone out s = hk_callback HKDone s"

definition exec_done :: "nat \<Rightarrow> string \<Rightarrow> mh_sys \<Rightarrow> mh_sys" where
  "exec_done i out s =
     (if i < length (running s)
      then run_callback (snd (running s ! i)) out (s\<lparr>running := del_nth i (running s)\<rparr>)
      else s)"

subsection \<open>Events and runs\<close>

datatype hk_event =
    GetPower | SetPower bool | GetHue | SetHue int | GetSaturation | SetSaturation int
  | GetBrightness | SetBrightness int | Identify | ExecDone nat string

fun hk_step :: "mh_sys \<Rightarrow> hk_event \<Rightarrow> mh_sys" where
  "hk_step s GetPower = get_power_state s"
| "hk_step s (SetPower v) = set_power_state v s"
| "hk_step s GetHue = get_hue s"
| "hk_step s (SetHue v) = set_hue v s"
| "hk_step s GetSaturation = get_saturation s"
| "hk_step s (SetSaturation v) = set_saturation v s"
| "hk_step s GetBrightness = get_brightness s"
| "hk_step s (SetBrightness v) = set_brightness v s"
| "hk_step s Identify = identify s"
| "hk_step s (ExecDone i out) = exec_done i out s"

definition hk_run :: "mh_sys \<Rightarrow> hk_event list \<Rightarrow> mh_sys" where
  "hk_run s es = foldl hk_step s es"

text \<open>
  The values HomeKit delivers: a hue within 0..360, a saturation and a
  brightness within 0..100 (the characteristics' ranges), and device replies
  whose three channels are bytes.
\<close>

fun event_ok :: "hk_event \<Rightarrow> bool" where
  "event_ok (SetHue v) = (0 \<le> v \<and> v \<le> 360)"
| "event_ok (SetSaturation v) = (0 \<le> v \<and> v \<le> 100)"
| "event_ok (SetBrightness v) = (0 \<le> v \<and> v \<le> 100)"
| "event_ok (ExecDone i out) = reply_bytes out"
| "event_ok _ = True"

inductive reachable :: "mh_config \<Rightarrow> mh_sys \<Rightarrow> bool" for cfg where
  start: "reachable cfg (new_accessory cfg)"
| step: "reachable cfg s \<Longrightarrow> event_ok e \<Longrightarrow> reachable cfg (hk_step s e)"

text \<open>Requests that HomeKit expects a callback for, and processes whose callback answers one.\<close>

fun hk_request :: "hk_event \<Rightarrow> bool" where
  "hk_request (ExecDone _ _) = False"
| "hk_request _ = True"

fun answers_hk :: "continuation \<Rightarrow> bool" where
  "answers_hk PowerGet = True"
| "answers_hk PowerSetDone = True"
| "answers_hk _ = False"

definition awaiting :: "mh_sys \<Rightarrow> nat" where
  "awaiting s = length (filter (answers_hk \<circ> snd) (running s))"

definition acc_config :: "accessory \<Rightarrow> string \<times> string \<times> nat \<times> string option \<times> bool \<times> bool \<times> bool" where
  "acc_config a = (name a, acc_setup a, port a, ip a, purewhite a, onlywhite a, combinedwhite a)"

definition sys_inv :: "mh_config \<Rightarrow> mh_sys \<Rightarrow> bool" where
  "sys_inv cfg s \<longleftrightarrow> acc_wf (acc s) \<and> acc_config (acc s) = acc_config (new_fields cfg)
                      \<and> subseq (map fst (running s)) (sent s)"

text \<open>
  The specification's view of the colour pipeline: a set event updates one
  field of the snapshot, and each update is rendered by the channel mapper
  and dispatched at once.
\<close>

fun is_color_set :: "hk_event \<Rightarrow> bool" where
  "is_color_set (SetHue _) = True"
| "is_color_set (SetSaturation _) = True"
| "is_color_set (SetBrightness _) = True"
| "is_color_set _ = False"

fun spec_update :: "hk_event \<Rightarrow> accessory \<Rightarrow> accessory" where
  "spec_update (SetHue v) a = a\<lparr>color := (color a)\<lparr>H := v\<rparr>\<rparr>"
| "spec_update (SetSaturation v) a = a\<lparr>color := (color a)\<lparr>S := v\<rparr>\<rparr>"
| "spec_update (SetBrightness v) a = a\<lparr>brightness := v\<rparr>"
| "spec_update _ a = a"

fun spec_commands :: "accessory \<Rightarrow> hk_event list \<Rightarrow> flux_cmd list" where
  "spec_commands a [] = []"
| "spec_commands a (e # es) = set_to_current_color (spec_update e a) # spec_commands (spec_update e a) es"

text \<open>
  Reading a \<^verbatim>\<open>DEVICE COLOR\<close> log line back: the prefix, then three
  comma-separated integers.
\<close>

definition parse_color_log :: "string \<Rightarrow> hsl option" where
  "parse_color_log m =
     (if take 14 m = ''DEVICE COLOR: ''
      then (case those (map read_int (split_commas (drop 14 m))) of
              Some [h, sa, l] \<Rightarrow> Some \<lparr>H = h, S = sa, L = l\<rparr>
            | _ \<Rightarrow> None)
      else None)"

text \<open>
  The command kinds of the specification's data model as they travel on the
  wire: an all-channel command carries five channels (r, g, b, ww, cw), a
  colour-only command three, and both name the controller's setup.
\<close>

fun cmd_typed :: "string \<Rightarrow> flux_cmd \<Rightarrow> bool" where
  "cmd_typed su (CmdAll su' vs) \<longleftrightarrow> su' = su \<and> length vs = 5"
| "cmd_typed su (CmdRgb su' vs) \<longleftrightarrow> su' = su \<and> length vs = 3"
| "cmd_typed su _ \<longleftrightarrow> True"

text \<open>A configuration naming only the controller's address, for the examples.\<close>

definition default_config :: mh_config where
  "default_config = \<lparr>cfg_name = None, cfg_setup = None, cfg_port = None, cfg_ip = Some ''192.168.1.20'',
     cfg_purewhite = None, cfg_onlywhite = None, cfg_combinedwhite = None\<rparr>"

lemmas method_defs = log_msg_def send_command_eff_def get_state_def get_color_from_device_def hk_callback_def identify_def
  set_to_current_color_eff_def get_power_state_def set_power_state_def get_hue_def set_hue_def
  get_brightness_def set_brightness_def get_saturation_def set_saturation_def

subsection \<open>Step lemmas\<close>

lemma log_msg_fields [simp]:
  "acc (log_msg m s) = acc s" "sent (log_msg m s) = sent s" "running (log_msg m s) = running s"
  "replies (log_msg m s) = replies s" "logs (log_msg m s) = logs s @ [m]"
  by (simp_all add: log_msg_def)

lemma hk_run_Nil [simp]: "hk_run s [] = s"
  by (simp add: hk_run_def)

lemma hk_run_Cons [simp]: "hk_run s (e # es) = hk_run (hk_step s e) es"
  by (simp add: hk_run_def)

lemma acc_run_callback:
  "acc (run_callback k out s) = (if k = ColorSync then (acc s)\<lparr>color := st_color (get_state_reply out)\<rparr> else acc s)"
  by (cases k) (simp_all add: hk_callback_def Let_def)

lemma sent_run_callback [simp]: "sent (run_callback k out s) = sent s"
  by (cases k) (simp_all add: hk_callback_def Let_def)

lemma running_run_callback [simp]: "running (run_callback k out s) = running s"
  by (cases k) (simp_all add: hk_callback_def Let_def)

lemma replies_run_callback:
  "replies (run_callback k out s) =
     replies s @ (if k = PowerGet then [HKBool (st_on (get_state_reply out))] else if k = PowerSetDone then [HKDone] else [])"
  by (cases k) (simp_all add: hk_callback_def Let_def)

lemma map_del_nth: "map f (del_nth i xs) = del_nth i (map f xs)"
  by (simp add: del_nth_def take_map drop_map)

lemma subseq_del_nth: "subseq (del_nth i xs) xs"
proof -
  have "subseq (drop (Suc i) xs) (drop i xs)"
    by (cases "i < length xs") (auto simp: Cons_nth_drop_Suc [symmetric] intro: list_emb_Cons)
  then have "subseq (take i xs @ drop (Suc i) xs) (take i xs @ drop i xs)"
    by (simp only: subseq_append')
  then show ?thesis by (simp add: del_nth_def)
qed

lemma filter_del_nth:
  "i < length xs \<Longrightarrow> length (filter P xs) = length (filter P (del_nth i xs)) + (if P (xs ! i) then 1 else 0)"
proof -
  assume i: "i < length xs"
  have "length (filter P xs) = length (filter P (take i xs @ xs ! i # drop (Suc i) xs))"
    using id_take_nth_drop [OF i] by simp
  then show ?thesis by (simp add: del_nth_def)
qed

lemma set_to_current_color_not_warm: "set_to_current_color a \<noteq> CmdWarm b"
  by (simp add: set_to_current_color_def Let_def split: prod.split)

text \<open>What one event adds to the command log: nothing, or one command, which is
  a status query, a power command or the colour command of the new state.\<close>

lemma hk_step_sent:
  "sent (hk_step s e) = sent s \<or>
   (\<exists>c. sent (hk_step s e) = sent s @ [c] \<and> (c = CmdInfo \<or> c = CmdOn \<or> c = CmdOff \<or> c = set_to_current_color (acc (hk_step s e))))"
  by (cases e) (auto simp: method_defs exec_done_def)

lemma hk_step_acc_wf:
  assumes "acc_wf (acc s)" and "event_ok e"
  shows "acc_wf (acc (hk_step s e))"
proof (cases e)
  case (ExecDone i out)
  then have "hsl_wf (st_color (get_state_reply out))" using assms(2) by (simp add: get_state_reply_wf)
  then show ?thesis using assms(1) by (simp add: ExecDone exec_done_def acc_run_callback acc_wf_def)
qed (insert assms, simp_all add: method_defs acc_wf_def hsl_wf_def)

lemma hk_step_config: "acc_config (acc (hk_step s e)) = acc_config (acc s)"
  by (cases e) (simp_all add: method_defs exec_done_def acc_run_callback acc_config_def)

lemma hk_step_subseq:
  "subseq (map fst (running s)) (sent s) \<Longrightarrow> subseq (map fst (running (hk_step s e))) (sent (hk_step s e))"
proof (cases e)
  case (ExecDone i out)
  assume sub: "subseq (map fst (running s)) (sent s)"
  have "subseq (del_nth i (map fst (running s))) (sent s)"
    using subseq_del_nth sub by (rule subseq_order.trans)
  then show ?thesis using sub by (simp add: ExecDone exec_done_def map_del_nth)
qed (simp_all add: method_defs)

lemma hk_step_accounting:
  "length (replies (hk_step s e)) + awaiting (hk_step s e) =
     length (replies s) + awaiting s + (if hk_request e then 1 else 0)"
proof (cases e)
  case (ExecDone i out)
  show ?thesis
  proof (cases "i < length (running s)")
    case True
    then have "awaiting s = awaiting (s\<lparr>running := del_nth i (running s)\<rparr>)
                 + (if answers_hk (snd (running s ! i)) then 1 else 0)"
      by (simp add: awaiting_def filter_del_nth)
    then show ?thesis
      using True by (cases "snd (running s ! i)") (auto simp: ExecDone exec_done_def replies_run_callback awaiting_def hk_callback_def Let_def)
  next
    case False
    then show ?thesis by (simp add: ExecDone exec_done_def)
  qed
qed (simp_all add: method_defs awaiting_def)

lemma reachable_acc_wf: "reachable cfg s \<Longrightarrow> acc_wf (acc s)"
  by (induction rule: reachable.induct)
    (simp_all add: new_accessory_def method_defs new_fields_wf hk_step_acc_wf)

lemma reachable_config: "reachable cfg s \<Longrightarrow> acc_config (acc s) = acc_config (new_fields cfg)"
  by (induction rule: reachable.induct) (simp_all add: new_accessory_def method_defs hk_step_config)

lemma set_to_current_color_typed: "cmd_typed (acc_setup a) (set_to_current_color a)"
  by (simp add: set_to_current_color_def Let_def split: prod.split)

lemma reachable_hk_run: "reachable cfg s \<Longrightarrow> list_all event_ok es \<Longrightarrow> reachable cfg (hk_run s es)"
  by (induction es arbitrary: s) (auto intro: reachable.step)

subsection \<open>Invariants of the accessory\<close>

text \<open>
  C19. In every state reachable from the constructor through events within
  the characteristics' ranges and byte-valued device replies, the colour and
  brightness stay within their ranges, the configuration the constructor read
  never changes, and the processes still running are, in issue order, among
  the commands sent.
\<close>

theorem reachable_sys_inv:
  assumes "reachable cfg s"
  shows "sys_inv cfg s"
  using assms
proof (induction rule: reachable.induct)
  case start
  show ?case by (simp add: sys_inv_def new_accessory_def method_defs new_fields_wf)
next
  case (step s e)
  then show ?case by (simp add: sys_inv_def hk_step_acc_wf hk_step_config hk_step_subseq)
qed

theorem reachable_sys_inv_witness:
  "reachable default_config (hk_step (new_accessory default_config) (SetHue 120))
   \<and> sys_inv default_config (hk_step (new_accessory default_config) (SetHue 120))"
proof -
  have r: "reachable default_config (hk_step (new_accessory default_config) (SetHue 120))"
    by (rule reachable.step [OF reachable.start]) simp
  show ?thesis using r reachable_sys_inv [OF r] by blast
qed

text \<open>
  C20. Across the components: in every reachable state, every channel value
  of every command the accessory has sent lies within 0..255.
\<close>

theorem reachable_sent_bytes:
  assumes "reachable cfg s"
  shows "\<forall>c \<in> set (sent s). \<forall>v \<in> set (cmd_channels c). 0 \<le> v \<and> v \<le> 255"
  using assms
proof (induction rule: reachable.induct)
  case start
  show ?case by (simp add: new_accessory_def method_defs)
next
  case (step s e)
  have wf: "acc_wf (acc (hk_step s e))"
    using step.hyps by (intro reachable_acc_wf reachable.step)
  from hk_step_sent [of s e] show ?case
    using step.IH set_to_current_color_bytes [OF wf] by auto
qed

theorem reachable_sent_bytes_witness:
  "reachable default_config (hk_step (new_accessory default_config) (SetBrightness 70))
   \<and> set (concat (map cmd_channels (sent (hk_step (new_accessory default_config) (SetBrightness 70)))))
       \<subseteq> {0..255}"
proof -
  have r: "reachable default_config (hk_step (new_accessory default_config) (SetBrightness 70))"
    by (rule reachable.step [OF reachable.start]) simp
  show ?thesis using r reachable_sent_bytes [OF r] by auto
qed

text \<open>
  C21. No HomeKit callback is lost or called twice: along any interleaving,
  the callbacks made plus those still owed by running processes grow by
  exactly one per HomeKit request (every event but a process completion).
\<close>

theorem hk_run_accounting:
  "length (replies (hk_run s es)) + awaiting (hk_run s es) =
     length (replies s) + awaiting s + length (filter hk_request es)"
proof (induction es arbitrary: s)
  case Nil
  show ?case by simp
next
  case (Cons e es)
  then show ?case using hk_step_accounting [of s e] by simp
qed

text \<open>
  C22. Once every running process has completed (here, oldest first), no
  process is left and every callback owed to HomeKit has been made.
\<close>

theorem drain_answers_all:
  assumes "length outs = length (running s)"
  shows "running (hk_run s (map (ExecDone 0) outs)) = []
         \<and> length (replies (hk_run s (map (ExecDone 0) outs))) = length (replies s) + awaiting s"
  using assms
proof (induction outs arbitrary: s)
  case Nil
  then show ?case by (simp add: awaiting_def)
next
  case (Cons out outs)
  let ?s = "hk_step s (ExecDone 0 out)"
  have "running ?s = tl (running s)"
    using Cons.prems by (simp add: exec_done_def del_nth_def drop_Suc)
  then have "length outs = length (running ?s)" using Cons.prems by simp
  then have "running (hk_run ?s (map (ExecDone 0) outs)) = []
             \<and> length (replies (hk_run ?s (map (ExecDone 0) outs))) = length (replies ?s) + awaiting ?s"
    by (rule Cons.IH)
  moreover have "length (replies ?s) + awaiting ?s = length (replies s) + awaiting s"
    using hk_step_accounting [of s "ExecDone 0 out"] by simp
  ultimately show ?case by simp
qed

theorem drain_answers_all_witness:
  "length [''(255, 000, 000)'', ''] ON ''] = length (running (hk_step (new_accessory default_config) GetPower))
   \<and> running (hk_run (hk_step (new_accessory default_config) GetPower) (map (ExecDone 0) [''(255, 000, 000)'', ''] ON ''])) = []
   \<and> length (replies (hk_run (hk_step (new_accessory default_config) GetPower) (map (ExecDone 0) [''(255, 000, 000)'', ''] ON ''])))
       = length (replies (hk_step (new_accessory default_config) GetPower)) + awaiting (hk_step (new_accessory default_config) GetPower)"
  using drain_answers_all [of "[''(255, 000, 000)'', ''] ON '']" "hk_step (new_accessory default_config) GetPower"]
  by (simp add: new_accessory_def method_defs)

subsection \<open>Handlers and interleavings\<close>

text \<open>
  C23. The colour pipeline refines the specification's: a sequence of hue,
  saturation and brightness events sends, in order, the channel mapper's
  command for each successive snapshot, updates the snapshot as the
  specification does, and answers each event at once.
\<close>

theorem color_sets_refine_spec:
  assumes "list_all is_color_set es"
  shows "sent (hk_run s es) = sent s @ spec_commands (acc s) es
         \<and> acc (hk_run s es) = fold spec_update es (acc s)
         \<and> replies (hk_run s es) = replies s @ replicate (length es) HKDone"
  using assms
proof (induction es arbitrary: s)
  case Nil
  then show ?case by simp
next
  case (Cons e es)
  have e: "is_color_set e" and es: "list_all is_color_set es" using Cons.prems by simp_all
  have step: "sent (hk_step s e) = sent s @ [set_to_current_color (spec_update e (acc s))]
      \<and> acc (hk_step s e) = spec_update e (acc s) \<and> replies (hk_step s e) = replies s @ [HKDone]"
    using e by (cases e) (simp_all add: method_defs)
  show ?case using Cons.IH [OF es, of "hk_step s e"] step by (simp add: replicate_app_Cons_same)
qed

theorem color_sets_refine_spec_witness:
  "list_all is_color_set [SetHue 120, SetBrightness 50]
   \<and> sent (hk_run (new_accessory default_config) [SetHue 120, SetBrightness 50])
       = sent (new_accessory default_config) @ spec_commands (acc (new_accessory default_config)) [SetHue 120, SetBrightness 50]
   \<and> acc (hk_run (new_accessory default_config) [SetHue 120, SetBrightness 50])
       = fold spec_update [SetHue 120, SetBrightness 50] (acc (new_accessory default_config))
   \<and> replies (hk_run (new_accessory default_config) [SetHue 120, SetBrightness 50])
       = replies (new_accessory default_config) @ replicate (length [SetHue 120, SetBrightness 50]) HKDone"
  using color_sets_refine_spec [of "[SetHue 120, SetBrightness 50]" "new_accessory default_config"]
  by simp

text \<open>
  C24. The start-up query races with the first user change. The constructor's
  query is issued before HomeKit can set a hue; if its reply arrives after
  the set, it overwrites the accessory's colour with the colour read before
  the change, while the last command sent (and so the light) has the user's
  hue. The hue HomeKit then reads back is not the one it set.
\<close>

theorem startup_query_race:
  "acc (hk_run (new_accessory cfg) [SetHue v, ExecDone 0 out])
     = (new_fields cfg)\<lparr>color := st_color (get_state_reply out)\<rparr>
   \<and> sent (hk_run (new_accessory cfg) [SetHue v, ExecDone 0 out])
     = [CmdInfo, set_to_current_color ((new_fields cfg)\<lparr>color := \<lparr>H = v, S = 100, L = 50\<rparr>\<rparr>)]"
  by (simp add: new_accessory_def method_defs exec_done_def new_fields_def del_nth_def Let_def)

text \<open>
  C25. \<^verbatim>\<open>getPowerState\<close> asks the device and answers HomeKit only when the
  query completes, with the power flag read from its output; it leaves the
  accessory's colour and brightness as they were.
\<close>

theorem get_power_reads_device:
  "hk_run s [GetPower, ExecDone (length (running s)) out]
     = s\<lparr>sent := sent s @ [CmdInfo], replies := replies s @ [HKBool (st_on (get_state_reply out))]\<rparr>"
  by (simp add: method_defs exec_done_def del_nth_def nth_append)

text \<open>
  C26. The error of a failed start-up query is not handled: when the
  constructor's query completes with empty output, the colour is reset to
  {H: 255, S: 100, L: 50}, whatever HomeKit set meanwhile.
\<close>

theorem failed_color_sync_resets:
  assumes "i < length (running s)" and "snd (running s ! i) = ColorSync"
  shows "color (acc (hk_step s (ExecDone i []))) = \<lparr>H = 255, S = 100, L = 50\<rparr>"
  using assms by (simp add: exec_done_def acc_run_callback get_state_reply_no_tuple match_all_Nil tuple_pat_def Let_def)

theorem failed_color_sync_resets_witness:
  "0 < length (running (hk_step (new_accessory default_config) (SetHue 120)))
   \<and> snd (running (hk_step (new_accessory default_config) (SetHue 120)) ! 0) = ColorSync
   \<and> color (acc (hk_step (hk_step (new_accessory default_config) (SetHue 120)) (ExecDone 0 [])))
       = \<lparr>H = 255, S = 100, L = 50\<rparr>"
  using failed_color_sync_resets [of 0 "hk_step (new_accessory default_config) (SetHue 120)"]
  by (simp add: new_accessory_def method_defs)

text \<open>
  C27. \<^verbatim>\<open>setToWarmWhite\<close> (lines 162 to 165) is never called: no reachable
  state has sent a \<^verbatim>\<open>-w\<close> command.
\<close>

theorem reachable_no_warm_white:
  assumes "reachable cfg s"
  shows "CmdWarm b \<notin> set (sent s)"
  using assms
proof (induction rule: reachable.induct)
  case start
  show ?case by (simp add: new_accessory_def method_defs)
next
  case (step s e)
  from hk_step_sent [of s e] show ?case
    using step.IH set_to_current_color_not_warm [of "acc (hk_step s e)" b] by auto
qed

theorem reachable_no_warm_white_witness:
  "reachable default_config (hk_step (new_accessory default_config) (SetHue 120))
   \<and> CmdWarm 100 \<notin> set (sent (hk_step (new_accessory default_config) (SetHue 120)))"
proof -
  have r: "reachable default_config (hk_step (new_accessory default_config) (SetHue 120))"
    by (rule reachable.step [OF reachable.start]) simp
  show ?thesis using r reachable_no_warm_white [OF r] by blast
qed

subsection \<open>Logging and the wire format\<close>

text \<open>
  C29. The log line \<^verbatim>\<open>getColorFromDevice\<close> writes when its query completes
  (line 109) carries the colour it stored: read back, the line gives exactly
  the accessory's new colour.
\<close>

theorem device_color_log_roundtrip:
  assumes "i < length (running s)" and "snd (running s ! i) = ColorSync"
  shows "parse_color_log (last (logs (hk_step s (ExecDone i out)))) = Some (color (acc (hk_step s (ExecDone i out))))"
proof -
  define c where "c = st_color (get_state_reply out)"
  have split: "split_commas (show_int (H c) @ CHR '','' # show_int (S c) @ CHR '','' # show_int (L c))
                 = [show_int (H c), show_int (S c), show_int (L c)]"
    using split_join_commas [of "[show_int (H c), show_int (S c), show_int (L c)]"] by simp
  have "format_s ''DEVICE COLOR: %s'' (show_int (H c) @ '','' @ show_int (S c) @ '','' @ show_int (L c))
          = ''DEVICE COLOR: '' @ show_int (H c) @ CHR '','' # show_int (S c) @ CHR '','' # show_int (L c)"
    by simp
  then show ?thesis
    using assms by (simp add: exec_done_def Let_def c_def [symmetric] parse_color_log_def split)
qed

theorem device_color_log_roundtrip_witness:
  "0 < length (running (new_accessory default_config))
   \<and> snd (running (new_accessory default_config) ! 0) = ColorSync
   \<and> parse_color_log (last (logs (hk_step (new_accessory default_config) (ExecDone 0 ''(255, 000, 000)''))))
       = Some (color (acc (hk_step (new_accessory default_config) (ExecDone 0 ''(255, 000, 000)''))))"
  using device_color_log_roundtrip [of 0 "new_accessory default_config" "''(255, 000, 000)''"]
  by (simp add: new_accessory_def method_defs)

text \<open>
  C30. Every command the accessory sends has the shape of its kind in the
  specification's data model, five channels for an all-channel command and
  three for a colour-only one, and names the setup the configuration gave
  the constructor, in every reachable state.
\<close>

theorem reachable_sent_typed:
  assumes "reachable cfg s"
  shows "\<forall>c \<in> set (sent s). cmd_typed (acc_setup (new_fields cfg)) c"
  using assms
proof (induction rule: reachable.induct)
  case start
  show ?case by (simp add: new_accessory_def method_defs)
next
  case (step s e)
  have "acc_config (acc (hk_step s e)) = acc_config (new_fields cfg)"
    using step.hyps by (intro reachable_config reachable.step)
  then have su: "acc_setup (acc (hk_step s e)) = acc_setup (new_fields cfg)"
    by (simp add: acc_config_def)
  from hk_step_sent [of s e] show ?case
    using step.IH set_to_current_color_typed [of "acc (hk_step s e)"] su by auto
qed

theorem reachable_sent_typed_witness:
  "reachable default_config (hk_step (new_accessory default_config) (SetHue 120))
   \<and> list_all (cmd_typed (acc_setup (new_fields default_config))) (sent (hk_step (new_accessory default_config) (SetHue 120)))"
proof -
  have r: "reachable default_config (hk_step (new_accessory default_config) (SetHue 120))"
    by (rule reachable.step [OF reachable.start]) simp
  show ?thesis using r reachable_sent_typed [OF r] by (simp add: list_all_iff)
qed

end
