(* ===== verification/Services.thy ===== *)
theory Services
  imports Accessory
begin

text \<open>
  The plugin's entry point and the HomeKit services of an accessory.
  \<^verbatim>\<open>module.exports\<close> (\<^verbatim>\<open>src/index.js\<close>, lines 7 to 14) logs the API
  version and registers the accessory's constructor under the plugin and
  accessory names (\<open>register_plugin\<close>). \<^verbatim>\<open>getServices\<close> (lines 38 to 70)
  builds two services: an information service with three fixed strings, and
  a light bulb named after the accessory whose four characteristics each
  bind a get and a set handler (\<open>get_services\<close>, with a record
  \<open>binding\<close> per characteristic). HomeKit's requests are dispatched through
  these bindings (\<open>hap_dispatch\<close>); HAP delivers the value of the power
  characteristic as a boolean and the others as numbers (\<open>hk_value\<close>).
  The theorem of this theory shows that the dispatch through the services is
  the event interface \<open>hk_step\<close> of theory \<open>Accessory\<close> (C31), so that the
  state-machine theorems there hold of the handlers as \<^verbatim>\<open>getServices\<close>
  binds them.
\<close>

subsection \<open>Registration\<close>

record homebridge_api =
  hb_version :: string

record registration =
  reg_plugin :: string
  reg_accessory :: string
  reg_constructor :: "mh_config \<Rightarrow> mh_sys"
  reg_dynamic :: bool

text \<open>The registration made, with the line \<^verbatim>\<open>console.log\<close> prints.\<close>

definition register_plugin :: "homebridge_api \<Rightarrow> registration \<times> string" where
  "register_plugin api =
     (\<lparr>reg_plugin = ''homebridge-magichome'', reg_accessory = ''MagicHome'',
       reg_constructor = new_accessory, reg_dynamic = False\<rparr>,
      ''homebridge API version: '' @ hb_version api)"

subsection \<open>Services and characteristics\<close>

datatype hk_value = VBool bool | VInt int

datatype characteristic = CharOn | CharHue | CharSaturation | CharBrightness

datatype info_char = Manufacturer | Model | SerialNumber

record binding =
  b_char :: characteristic
  b_get :: "mh_sys \<Rightarrow> mh_sys"
  b_set :: "hk_value \<Rightarrow> mh_sys \<Rightarrow> mh_sys"

datatype service =
    AccessoryInformation "(info_char \<times> string) list"
  | Lightbulb string "binding list"

text \<open>
  \<^verbatim>\<open>value ? '--on' : '--off'\<close> tests JavaScript truthiness; a numeric
  characteristic's value is the number HAP delivers.
\<close>

fun js_truthy :: "hk_value \<Rightarrow> bool" where
  "js_truthy (VBool b) = b"
| "js_truthy (VInt i) = (i \<noteq> 0)"

fun hap_number :: "hk_value \<Rightarrow> int" where
  "hap_number (VInt i) = i"
| "hap_number (VBool b) = (if b then 1 else 0)"

definition get_services :: "mh_sys \<Rightarrow> service list" where
  "get_services s =
     [AccessoryInformation [(Manufacturer, ''ACME Ltd.''), (Model, ''LED-controller''), (SerialNumber, ''123456789'')],
      Lightbulb (name (acc s))
        [\<lparr>b_char = CharOn, b_get = get_power_state, b_set = \<lambda>v. set_power_state (js_truthy v)\<rparr>,
         \<lparr>b_char = CharHue, b_get = get_hue, b_set = \<lambda>v. set_hue (hap_number v)\<rparr>,
         \<lparr>b_char = CharSaturation, b_get = get_saturation, b_set = \<lambda>v. set_saturation (hap_number v)\<rparr>,
         \<lparr>b_char = CharBrightness, b_get = get_brightness, b_set = \<lambda>v. set_brightness (hap_number v)\<rparr>]]"

fun service_bindings :: "service list \<Rightarrow> binding list" where
  "service_bindings [] = []"
| "service_bindings (AccessoryInformation _ # svs) = service_bindings svs"
| "service_bindings (Lightbulb _ bs # svs) = bs @ service_bindings svs"

datatype hap_request = HapGet characteristic | HapSet characteristic hk_value

text \<open>HAP calls the handler bound to the requested characteristic; an unbound one is an error (\<open>None\<close>).\<close>

fun hap_dispatch :: "service list \<Rightarrow> hap_request \<Rightarrow> mh_sys \<Rightarrow> mh_sys option" where
  "hap_dispatch svs (HapGet c) s = map_option (\<lambda>b. b_get b s) (find (\<lambda>b. b_char b = c) (service_bindings svs))"
| "hap_dispatch svs (HapSet c v) s = map_option (\<lambda>b. b_set b v s) (find (\<lambda>b. b_char b = c) (service_bindings svs))"

text \<open>The event of theory \<open>Accessory\<close> a request stands for.\<close>

fun request_event :: "hap_request \<Rightarrow> hk_event" where
  "request_event (HapGet CharOn) = GetPower"
| "request_event (HapGet CharHue) = GetHue"
| "request_event (HapGet CharSaturation) = GetSaturation"
| "request_event (HapGet CharBrightness) = GetBrightness"
| "request_event (HapSet CharOn v) = SetPower (js_truthy v)"
| "request_event (HapSet CharHue v) = SetHue (hap_number v)"
| "request_event (HapSet CharSaturation v) = SetSaturation (hap_number v)"
| "request_event (HapSet CharBrightness v) = SetBrightness (hap_number v)"

text \<open>
  C31. \<^verbatim>\<open>getServices\<close> binds every HomeKit request to the handler the event
  step \<open>hk_step\<close> runs for it: dispatching a request through the services of
  any state gives the state \<open>hk_step\<close> gives.
\<close>

theorem hap_dispatch_is_hk_step:
  "hap_dispatch (get_services s) r s = Some (hk_step s (request_event r))"
proof (cases r)
  case (HapGet c)
  then show ?thesis by (cases c) (simp_all add: get_services_def)
next
  case (HapSet c v)
  then show ?thesis by (cases c) (simp_all add: get_services_def)
qed

end
