(* ===== verification/Spec2Isabelle.thy ===== *)
theory Spec2Isabelle
  imports Services
begin

text \<open>
  \<^bold>\<open>A verification library for homebridge-magicwifi.\<close>

  The repository is one file, \<^verbatim>\<open>src/index.js\<close>: a Homebridge accessory
  (\<^verbatim>\<open>MagicHomeAccessory\<close>) that keeps a colour \<^verbatim>\<open>{H, S, L}\<close> and a
  brightness, and on every HomeKit set of hue, saturation or brightness renders
  them into a channel command for a MagicHome LED controller wired as RGB, RGBW
  or RGBWW, which it hands as a shell line to the \<^verbatim>\<open>flux_led.py\<close> helper.
  At start-up, and on every power query, it asks the controller for its state
  and reads the colour back from the helper's output. Its parts and where they
  are modelled:

  \<^item> \<^bold>\<open>JavaScript primitives\<close> (theory \<open>MH_Prelude\<close>): \<^verbatim>\<open>Math.round\<close>
    is \<^const>\<open>round\<close> on exact reals; \<^verbatim>\<open>String(n)\<close> of an integer is
    \<open>show_int\<close>, read back by \<open>read_int\<close>; \<^verbatim>\<open>config.k || d\<close> is
    \<open>js_or_str\<close>, \<open>js_or_nat\<close>, \<open>js_or_bool\<close>; string concatenation of an
    absent key is \<open>js_str\<close>. Lemmas: rounding of literal quotients (collection
    \<open>js_num\<close>), decimal and comma-list round trips.
  \<^item> \<^bold>\<open>Accessory fields\<close> (theory \<open>Accessory_State\<close>): the records
    \<open>hsl\<close>, \<open>mh_config\<close> and \<open>accessory\<close> for the colour object, the
    configuration and the object's fields; \<open>new_fields\<close> is the constructor's
    field initialisation (lines 16 to 28); \<open>acc_wf\<close> is the range HomeKit
    keeps the values in.
  \<^item> \<^bold>\<open>Colour conversion\<close> (theory \<open>Color_Convert\<close>): the
    \<^verbatim>\<open>color-convert\<close> package's \<^verbatim>\<open>hsl.rgb\<close> and \<^verbatim>\<open>rgb.hsl\<close> with
    their rounding wrappers (\<open>hsl_rgb\<close>, \<open>rgb_hsl\<close>), modelled after the
    package since it is not part of \<^verbatim>\<open>src/\<close>, and the two call sites
    \<open>render_rgb\<close> (lines 128 and 144) and \<open>device_color\<close> (lines 93 to 98).
    Lemmas: range of both conversions (C10, C11), the grey-axis round trip
    (C12). Two computed examples show where the specification's promises
    fail: the round trip drifts by more than one unit on dark colours
    (\<open>render_roundtrip_drift\<close>) and a read-back hue can be 360
    (\<open>device_color_hue_360\<close>).
  \<^item> \<^bold>\<open>Commands\<close> (theory \<open>Flux_Command\<close>): the datatype
    \<open>flux_cmd\<close> of the helper's command forms, \<open>command_arg\<close> rendering each
    as the source concatenates it, \<open>send_command\<close> the shell line of
    \<^verbatim>\<open>sendCommand\<close> (lines 74 to 79). Lemma: the rendering is read back
    unchanged by \<open>parse_command_arg\<close> (C13).
  \<^item> \<^bold>\<open>Channel mapper\<close> (theory \<open>Channel_Mapper\<close>):
    \<open>set_to_current_color\<close> is \<^verbatim>\<open>setToCurrentColor\<close> (lines 117 to 160)
    with every branch and its precedence, \<open>set_to_warm_white\<close> is
    \<^verbatim>\<open>setToWarmWhite\<close>. The specification's decision table is the abstract
    \<open>spec_compute\<close> over an enumerated setup kind and the command kinds of the
    specification's data model. Lemmas: every channel sent lies in 0..255 (C1);
    the code refines the decision table (C2); the command of each policy (C3
    to C9), among them that the two white channels of the RGBWW warm/cold mix
    never sum past 255 (C4), with each rounded channel stated as a nearest
    integer to its exact value (\<open>nearest_int\<close>, see \<^emph>\<open>Numbers\<close>).

  \<^item> \<^bold>\<open>Device state query\<close> (theory \<open>Device_State\<close>): the reply handler
    of \<^verbatim>\<open>getState\<close> (lines 82 to 101). The three global regular expressions
    are fixed-length patterns (\<open>pat_item\<close> lists) run by \<open>match_all\<close>, the
    left-to-right scan of \<^verbatim>\<open>String.prototype.match\<close> with the \<^verbatim>\<open>g\<close> flag
    (a \<^theory_text>\<open>function\<close> whose termination measure is the length of the rest
    of the string); \<open>get_state_reply\<close> builds the \<^verbatim>\<open>settings\<close> object.
    Lemmas: a tuple with three-digit channels and no digits before it is read
    back through \<open>device_color\<close> (C14); whenever the tuple matches,
    \<^verbatim>\<open>convert.rgb.hsl\<close> gets three numbers (C17); but the channels are the
    first three-digit runs anywhere in the output (C15), an unpadded tuple is
    not recognised (C16), and equal runs of 257 or more give a lightness
    above 100 (C18). The scan is equivalent to chopping the maximal digit runs
    into three-digit chunks (C28).
  \<^item> \<^bold>\<open>Accessory state machine\<close> (theory \<open>Accessory\<close>): the record
    \<open>mh_sys\<close> holds the object's fields, the commands issued, the child
    processes still running with the callback each will call, and the
    callbacks made to HomeKit. Each method is one state transformer: the
    constructor \<open>new_accessory\<close> with its start-up query, \<open>send_command_eff\<close>,
    \<open>get_state\<close>, \<open>get_color_from_device\<close>, \<open>set_to_current_color_eff\<close>,
    the eight handlers and \<open>identify\<close>. \<open>hk_step\<close> is the accessory's
    event interface: it runs the handler of a HomeKit get or set (theory
    \<open>Services\<close> proves that this is how \<^verbatim>\<open>getServices\<close> binds them, C31),
    or delivers the completion of the \<open>i\<close>-th running process (\<open>exec_done\<close>, which runs its callback
    \<open>run_callback\<close>); completions come in any order, so a run is any list of
    events, and \<open>reachable cfg\<close> is the inductive set of states some
    interleaving of in-range events reaches from the constructor. Lemmas:
    the invariant (ranges kept, configuration fixed, running processes a
    subsequence of the commands sent, C19); every channel ever sent is a byte
    (C20); no HomeKit callback is lost or duplicated (C21) and all are made
    once the processes complete (C22); the set events refine the
    specification's pipeline of snapshots and mapper calls (C23); the
    start-up query races with the first change and overwrites it (C24);
    \<^verbatim>\<open>getPowerState\<close> answers from the device (C25); a failed start-up
    query resets the colour (C26); \<^verbatim>\<open>setToWarmWhite\<close> is never called (C27).
    The log of the same theory: every \<^verbatim>\<open>this.log\<close> call appends to
    \<open>logs\<close>, formatted by \<open>format_s\<close> as \<^verbatim>\<open>util.format\<close> does; the
    \<^verbatim>\<open>DEVICE COLOR\<close> line reads back as the colour stored (C29). Every command
    sent has the arity of its kind in the specification's data model and
    names the configured setup (C30).
  \<^item> \<^bold>\<open>Plugin entry and services\<close> (theory \<open>Services\<close>):
    \<open>register_plugin\<close> is \<^verbatim>\<open>module.exports\<close> (lines 7 to 14);
    \<open>get_services\<close> is \<^verbatim>\<open>getServices\<close> (lines 38 to 70), an information
    service and a light bulb whose characteristics each bind a get and a set
    handler (record \<open>binding\<close>); \<open>hap_dispatch\<close> runs a HomeKit request
    through the bindings. Lemma: the dispatch through the bindings is the
    event interface \<open>hk_step\<close> (C31).

  \<^bold>\<open>Numbers.\<close> JavaScript numbers are IEEE doubles; the model computes the
  same formulas on exact reals and rounds with \<open>\<lfloor>x + 1/2\<rfloor>\<close>, as
  \<^verbatim>\<open>Math.round\<close> does. The two agree except where a double's representation
  error moves a value across a rounding boundary: \<^verbatim>\<open>2.55\<close> is not a double,
  and \<open>255 / 100 * 50\<close> is \<open>127.49999999999999\<close>, which rounds to 127 where
  the exact value 127.5 rounds to 128. The closed forms of the helper lemmas
  are those of exact arithmetic; the claims state a rounded quotient only as a
  nearest integer to its exact value (\<open>nearest_int\<close>: within one half), which
  both number models satisfy, or use a closed form that agrees with the
  doubles on the whole input range (the white level
  \<open>(51 * brightness + 10) div 20\<close> of \<^verbatim>\<open>Math.round(brightness / 100 * 255)\<close>
  for brightness 0..100, and the bounds of C1, C4 and C20). Colour values and the
  brightness are integers, as the HomeKit characteristics deliver them; the
  state machine's well-formed events (\<open>event_ok\<close>) are those within the
  characteristics' ranges (hue 0..360, saturation and brightness 0..100) and
  device replies whose three channels read are bytes (\<open>reply_bytes\<close>).

  \<^bold>\<open>Loops and termination.\<close> \<^verbatim>\<open>src/index.js\<close> has no loop of its own.
  The only loop the model needs is the engine's global regular-expression
  scan; \<open>match_all\<close> is a \<^theory_text>\<open>function\<close> whose termination proof uses the
  length of the rest of the string, which each step decreases. No fuel is
  needed anywhere. Events are finite lists, so every run is total.

  \<^bold>\<open>Not modelled.\<close> The HAP classes \<^verbatim>\<open>Service\<close> and
  \<^verbatim>\<open>Characteristic\<close> that \<^verbatim>\<open>module.exports\<close> stores, which belong to
  Homebridge; the \<^verbatim>\<open>exec\<close> of a shell line itself, whose effect is the
  process's completion event; and the \<^verbatim>\<open>flux_led.py\<close> helper, which is
  not in the repository: its output is an arbitrary string in the model. The
  log of \<^verbatim>\<open>sendCommand\<close> (line 78) is commented out. Every other statement of
  \<^verbatim>\<open>src/index.js\<close> is translated by a definition of the library.
\<close>

end
